theory Spec2Isabelle
  imports Main "HOL-Library.Word" "HOL-Library.Char_ord" "HOL-Library.List_Lexorder"
begin

unbundle bit_operations_syntax

section \<open>Errors\<close>

text \<open>
  The source raises a single exception class, \<open>ISAError\<close>, told apart only by its message.
  Each raise site of \<open>isa.py\<close> is one constructor of \<open>isa_message\<close>, named after the
  message text. The remaining constructors of \<open>error\<close> are the built-in Python exceptions
  that the modelled statements can raise.
\<close>

datatype isa_message =
    UpperLowerThanLower     \<comment> \<open>\<open>upper_bit "..." is lower than lower_bit "..."\<close> (\<open>bit_select\<close>)\<close>
  | UpperBitsNotZero        \<comment> \<open>\<open>upper bits of i "..." not 0\<close> (\<open>sign_extend\<close>)\<close>
  | FormatWrongBits         \<comment> \<open>\<open>format for "..." is n bits not m\<close> (\<open>_extract_pattern\<close>)\<close>
  | InstructionWrongBytes   \<comment> \<open>\<open>instruction "..." is n bytes not m\<close> (\<open>_pattern_match\<close>)\<close>
  | UnknownOperandSpecifier \<comment> \<open>\<open>Unknown operand specifier\<close> (\<open>_format_asm\<close>)\<close>
  | UnableToDecode          \<comment> \<open>\<open>Unable to decode bytes as instruction\<close> (\<open>decode\<close>)\<close>

datatype error =
    ISAError isa_message
  | ValueError
  | AttributeError
  | AssertionError
  | IndexError
  | KeyError
  | TypeError

section \<open>Bit utilities\<close>

text \<open>\<open>mask(n)\<close> is \<open>(1<<n)-1\<close>; Python's shift raises \<open>ValueError\<close> on a negative count.\<close>

definition lshift :: "int \<Rightarrow> int \<Rightarrow> error + int" where
  "lshift v n = (if n < 0 then Inl ValueError else Inr (push_bit (nat n) v))"

definition rshift :: "int \<Rightarrow> int \<Rightarrow> error + int" where
  "rshift v n = (if n < 0 then Inl ValueError else Inr (drop_bit (nat n) v))"

definition mask_n :: "int \<Rightarrow> error + int" where
  "mask_n n = (case lshift 1 n of Inl e \<Rightarrow> Inl e | Inr p \<Rightarrow> Inr (p - 1))"

definition bit_select :: "int \<Rightarrow> int \<Rightarrow> int \<Rightarrow> bool \<Rightarrow> error + int" where
  "bit_select v upper_bit lower_bit shift =
     (if upper_bit < lower_bit then Inl (ISAError UpperLowerThanLower)
      else (case mask_n (upper_bit + 1) of Inl e \<Rightarrow> Inl e | Inr mu \<Rightarrow>
           (case mask_n lower_bit of Inl e \<Rightarrow> Inl e | Inr ml \<Rightarrow>
             (let smask = (mu AND (NOT ml));
                  shamt = (if shift then lower_bit else 0)
              in rshift (v AND smask) shamt))))"

definition sign_extend :: "int \<Rightarrow> int \<Rightarrow> error + int" where
  "sign_extend i bits =
     (case mask_n bits of Inl e \<Rightarrow> Inl e | Inr mb \<Rightarrow>
        (let upper_mask = NOT mb in
         if (i AND upper_mask) \<noteq> 0 then Inl (ISAError UpperBitsNotZero)
         else (case lshift 1 (bits - 1) of Inl e \<Rightarrow> Inl e | Inr sb \<Rightarrow>
           (if (i AND sb) = 0 then Inr i else Inr (i OR upper_mask)))))"


section \<open>Python strings and sequences\<close>

text \<open>
  Strings are lists of characters with code points below 256. \<open>is_space\<close> is the set of
  those code points for which Python's \<open>str.isspace\<close> holds; \<open>str.split()\<close> and
  \<open>str.strip()\<close> without argument use it.
\<close>

definition is_space :: "char \<Rightarrow> bool" where
  "is_space c = (of_char c \<in> set [9, 10, 11, 12, 13, 28, 29, 30, 31, 32, 133, 160 :: nat])"

definition startswith :: "string \<Rightarrow> string \<Rightarrow> bool" where
  "startswith s p = (take (length p) s = p)"

text \<open>\<open>s.replace(old, new)\<close> for one-character \<open>old\<close>.\<close>

definition replace :: "string \<Rightarrow> char \<Rightarrow> string \<Rightarrow> string" where
  "replace s old new = concat (map (\<lambda>c. if c = old then new else [c]) s)"

text \<open>\<open>s.split(sep)\<close> for a one-character separator: never empty, keeps empty pieces.\<close>

fun split_on :: "char \<Rightarrow> string \<Rightarrow> string list" where
  "split_on sep [] = [[]]"
| "split_on sep (c # cs) =
     (if c = sep then [] # split_on sep cs
      else (case split_on sep cs of
              [] \<Rightarrow> [[c]]
            | piece # pieces \<Rightarrow> (c # piece) # pieces))"

text \<open>\<open>s.split()\<close>: the maximal runs of non-whitespace characters.\<close>

fun split_ws_acc :: "string \<Rightarrow> string \<Rightarrow> string list" where
  "split_ws_acc cur [] = (if cur = [] then [] else [rev cur])"
| "split_ws_acc cur (c # cs) =
     (if is_space c then (if cur = [] then split_ws_acc [] cs else rev cur # split_ws_acc [] cs)
      else split_ws_acc (c # cur) cs)"

definition split_ws :: "string \<Rightarrow> string list" where
  "split_ws s = split_ws_acc [] s"

definition strip :: "string \<Rightarrow> string" where
  "strip s = rev (dropWhile is_space (rev (dropWhile is_space s)))"

text \<open>\<open>str.join(sep, parts)\<close>.\<close>

fun join :: "string \<Rightarrow> string list \<Rightarrow> string" where
  "join sep [] = []"
| "join sep [x] = x"
| "join sep (x # y # ys) = x @ sep @ join sep (y # ys)"

text \<open>\<open>xs[i]\<close> for a non-negative literal index.\<close>

definition index :: "'a list \<Rightarrow> nat \<Rightarrow> error + 'a" where
  "index xs i = (if i < length xs then Inr (xs ! i) else Inl IndexError)"

text \<open>\<open>xs[start:stop]\<close>: negative bounds count from the end, all bounds are clipped.\<close>

definition slice :: "'a list \<Rightarrow> int \<Rightarrow> int \<Rightarrow> 'a list" where
  "slice xs start stop =
     (let n = int (length xs);
          lo = (if start < 0 then max (start + n) 0 else min start n);
          hi = (if stop < 0 then max (stop + n) 0 else min stop n)
      in if lo < hi then take (nat (hi - lo)) (drop (nat lo) xs) else [])"

text \<open>\<open>str(n)\<close> and \<open>hex(n)\<close> of an integer.\<close>

definition digit_char :: "nat \<Rightarrow> char" where
  "digit_char d = ''0123456789abcdef'' ! d"

fun dec_digits :: "nat \<Rightarrow> string" where
  "dec_digits n = (if n < 10 then [digit_char n] else dec_digits (n div 10) @ [digit_char (n mod 10)])"

fun hex_digits :: "nat \<Rightarrow> string" where
  "hex_digits n = (if n < 16 then [digit_char n] else hex_digits (n div 16) @ [digit_char (n mod 16)])"

declare dec_digits.simps [simp del]
declare hex_digits.simps [simp del]

definition str_int :: "int \<Rightarrow> string" where
  "str_int n = (if n < 0 then ''-'' @ dec_digits (nat (- n)) else dec_digits (nat n))"

definition hex :: "int \<Rightarrow> string" where
  "hex n = (if n < 0 then ''-0x'' @ hex_digits (nat (- n)) else ''0x'' @ hex_digits (nat n))"

section \<open>Machine state\<close>

text \<open>
  An \<open>IsaDefinition\<close> object is split in two. The record \<open>machine\<close> holds its data
  attributes: the registers created by \<open>setattr\<close> (\<open>attrs\<close>, a scalar register is an integer,
  a register file a dictionary from index to integer), \<open>_reg_list\<close>, \<open>_mem\<close>, \<open>endian\<close> and
  \<open>isize\<close>. The record \<open>isa\<close> holds its code: the instruction functions collected in
  \<open>_ifuncs\<close> and the optional \<open>finalize_execution\<close> hook. An instruction function is its
  name, its docstring (\<open>None\<close> when it has none) and its body, a function that takes the
  decoded fields and the machine and returns the machine as it left it, with the exception
  it raised, if any. Register names are taken to differ from the names the class itself
  defines (\<open>own_names\<close>), which live in the same namespace in Python.
\<close>

type_synonym byte = "8 word"

datatype pyvalue = IntV int | DictV "int \<rightharpoonup> int"

text \<open>The entries \<open>('reg',name,bits,None,None)\<close> and \<open>('file',name,bits,size,rnames)\<close>.\<close>

datatype reg_entry =
    RegEntry string int
  | FileEntry string int int "int \<rightharpoonup> string"

record machine =
  attrs :: "string \<rightharpoonup> pyvalue"
  reg_list :: "reg_entry list"
  mem :: "byte list option"
  endian :: string
  isize :: int

type_synonym fields = "char \<rightharpoonup> int"

record ifunc =
  fname :: string
  doc :: "string option"
  action :: "fields \<Rightarrow> machine \<Rightarrow> error option \<times> machine"

record isa =
  ifuncs :: "ifunc list"
  finalize_execution :: "(ifunc \<times> fields \<Rightarrow> machine \<Rightarrow> error option \<times> machine) option"

definition own_names :: "string list" where
  "own_names = [''_ifuncs'', ''_reg_list'', ''_mem'', ''endian'', ''isize'', ''make_register'',
     ''make_register_file'', ''registers'', ''_extract_pattern'', ''_pattern_match'',
     ''_extract_asm'', ''_format_asm'', ''fetch'', ''decode'', ''execute'', ''istring'', ''step'',
     ''mem_map'', ''mem_read'', ''mem_write'', ''finalize_execution'', ''jumps'']"

section \<open>Construction\<close>

text \<open>
  \<open>__init__\<close> collects the methods whose name starts with \<open>instruction_\<close>. The class body
  is the list of its instruction functions in the order they are declared; \<open>dir\<close> returns
  the attribute names sorted, each once, and \<open>getattr\<close> finds the last declaration of a name.
\<close>

definition dir_names :: "ifunc list \<Rightarrow> string list" where
  "dir_names decls = sort (remdups (map fname decls))"

definition getattr_method :: "ifunc list \<Rightarrow> string \<Rightarrow> ifunc option" where
  "getattr_method decls f = find (\<lambda>d. fname d = f) (rev decls)"

definition init_ifuncs :: "ifunc list \<Rightarrow> ifunc list" where
  "init_ifuncs decls =
     List.map_filter (getattr_method decls)
       (filter (\<lambda>f. startswith f ''instruction_'') (dir_names decls))"

definition init_machine :: machine where
  "init_machine = \<lparr>attrs = Map.empty, reg_list = [], mem = None, endian = ''big'', isize = 4\<rparr>"

definition IsaDefinition_init :: "ifunc list \<Rightarrow> isa" where
  "IsaDefinition_init decls = \<lparr>ifuncs = init_ifuncs decls, finalize_execution = None\<rparr>"

section \<open>Register model\<close>

text \<open>
  \<open>setattr(self, name, value)\<close> on an instance of a plain class: \<open>__class__\<close> accepts only
  a class and \<open>__dict__\<close> only a dictionary (\<open>TypeError\<close> otherwise), \<open>__weakref__\<close> is not
  writable (\<open>AttributeError\<close>); every other name is set.
\<close>

definition setattr_raises :: "string \<Rightarrow> pyvalue \<Rightarrow> error option" where
  "setattr_raises name v =
     (if name = ''__class__'' then Some TypeError
      else if name = ''__weakref__'' then Some AttributeError
      else if name = ''__dict__'' then (case v of IntV x \<Rightarrow> Some TypeError | DictV d \<Rightarrow> None)
      else None)"

text \<open>
  A declaration returns the machine, or the exception it raised; what is left of the
  object after the exception is not modelled.
\<close>

definition make_register :: "string \<Rightarrow> int \<Rightarrow> machine \<Rightarrow> error + machine" where
  "make_register name bits m =
     (case setattr_raises name (IntV 0) of
        Some e \<Rightarrow> Inl e
      | None \<Rightarrow>
         Inr (m\<lparr>attrs := (attrs m)(name \<mapsto> IntV 0),
               reg_list := reg_list m @ [RegEntry name bits]\<rparr>))"

definition range_dict :: "int \<Rightarrow> (int \<Rightarrow> 'a) \<Rightarrow> (int \<rightharpoonup> 'a)" where
  "range_dict sz f = (\<lambda>x. if 0 \<le> x \<and> x < sz then Some (f x) else None)"

text \<open>
  Under the name \<open>__dict__\<close> the new dictionary replaces the instance dictionary, so that
  \<open>self._reg_list\<close> no longer exists when the entry is to be appended.
\<close>

definition make_register_file ::
  "string \<Rightarrow> int \<Rightarrow> int \<Rightarrow> (int \<rightharpoonup> string) option \<Rightarrow> machine \<Rightarrow> error + machine" where
  "make_register_file name sz bits rnames m =
     (case setattr_raises name (DictV (range_dict sz (\<lambda>x. 0))) of
        Some e \<Rightarrow> Inl e
      | None \<Rightarrow>
         (let rnames' = (case rnames of
                           None \<Rightarrow> range_dict sz (\<lambda>x. ''$'' @ name @ str_int x)
                         | Some r \<Rightarrow> r)
          in if name = ''__dict__'' then Inl AttributeError
             else Inr (m\<lparr>attrs := (attrs m)(name \<mapsto> DictV (range_dict sz (\<lambda>x. 0))),
                        reg_list := reg_list m @ [FileEntry name bits sz rnames']\<rparr>)))"

text \<open>
  \<open>registers\<close> is a generator: the result is the triples it yields, in order, and the
  exception that ended it early, if any.
\<close>

fun file_registers ::
  "machine \<Rightarrow> string \<Rightarrow> int \<Rightarrow> (int \<rightharpoonup> string) \<Rightarrow> int list
     \<Rightarrow> (string \<times> int \<times> pyvalue) list \<times> error option" where
  "file_registers m name bits rnames [] = ([], None)"
| "file_registers m name bits rnames (i # is) =
     (case rnames i of
        None \<Rightarrow> ([], Some KeyError)
      | Some rn \<Rightarrow>
         (case attrs m name of
            None \<Rightarrow> ([], Some AttributeError)
          | Some (IntV v) \<Rightarrow> ([], Some TypeError)
          | Some (DictV d) \<Rightarrow>
             (case d i of
                None \<Rightarrow> ([], Some KeyError)
              | Some v \<Rightarrow>
                 (case file_registers m name bits rnames is of
                    (ys, e) \<Rightarrow> ((rn, bits, IntV v) # ys, e)))))"

fun registers_loop ::
  "machine \<Rightarrow> reg_entry list \<Rightarrow> (string \<times> int \<times> pyvalue) list \<times> error option" where
  "registers_loop m [] = ([], None)"
| "registers_loop m (RegEntry name bits # rs) =
     (case attrs m name of
        None \<Rightarrow> ([], Some AttributeError)
      | Some v \<Rightarrow> (case registers_loop m rs of (ys, e) \<Rightarrow> ((name, bits, v) # ys, e)))"
| "registers_loop m (FileEntry name bits sz rnames # rs) =
     (case file_registers m name bits rnames [0..sz - 1] of
        (xs, Some e) \<Rightarrow> (xs, Some e)
      | (xs, None) \<Rightarrow> (case registers_loop m rs of (ys, e) \<Rightarrow> (xs @ ys, e)))"

definition registers :: "machine \<Rightarrow> (string \<times> int \<times> pyvalue) list \<times> error option" where
  "registers m = registers_loop m (reg_list m)"

section \<open>Memory\<close>

text \<open>
  \<open>mem_map\<close> ignores its start address (it prints a warning saying so);
  \<open>bytearray(size)\<close> raises \<open>ValueError\<close> for a negative size.
\<close>

definition mem_map :: "int \<Rightarrow> int \<Rightarrow> machine \<Rightarrow> error + machine" where
  "mem_map start_address sz m =
     (if sz < 0 then Inl ValueError else Inr (m\<lparr>mem := Some (replicate (nat sz) 0)\<rparr>))"

definition mem_read :: "machine \<Rightarrow> int \<Rightarrow> int \<Rightarrow> error + byte list" where
  "mem_read m start_addr sz =
     (case mem m of
        None \<Rightarrow> Inl TypeError
      | Some bs \<Rightarrow> Inr (slice bs start_addr (start_addr + sz)))"

section \<open>Pattern decode engine\<close>

definition extract_pattern :: "machine \<Rightarrow> ifunc \<Rightarrow> error + string" where
  "extract_pattern m func =
     (case doc func of
        None \<Rightarrow> Inl AttributeError
      | Some docstring \<Rightarrow>
         (case index (split_on CHR '':'' (replace docstring CHR '' '' [])) 1 of
            Inl e \<Rightarrow> Inl e
          | Inr clean_format \<Rightarrow>
             (if int (length clean_format) \<noteq> isize m * 8
              then Inl (ISAError FormatWrongBits)
              else Inr clean_format)))"

text \<open>\<open>int.from_bytes(instr, byteorder)\<close>.\<close>

definition from_bytes :: "byte list \<Rightarrow> string \<Rightarrow> error + int" where
  "from_bytes bs byteorder =
     (if byteorder = ''big'' then Inr (foldl (\<lambda>acc b. acc * 256 + uint b) 0 bs)
      else if byteorder = ''little'' then Inr (foldl (\<lambda>acc b. acc * 256 + uint b) 0 (rev bs))
      else Inl ValueError)"

text \<open>\<open>[(instr_as_integer>>(s-1)) & 0x1 for s in range(self.isize*8,0,-1)]\<close>.\<close>

definition list_of_bits :: "int \<Rightarrow> int \<Rightarrow> int list" where
  "list_of_bits instr_as_integer width =
     map (\<lambda>s. (drop_bit (nat (s - 1)) instr_as_integer) AND 1) (rev [1..width])"

text \<open>
  The loop over \<open>zip(pattern, instr_as_list_of_bits)\<close>; \<open>flds\<close> (\<open>fields\<close> in the source) is a
  \<open>defaultdict(int)\<close>, so a key that is read before it was written reads as 0.
\<close>

fun match_bits :: "(char \<times> int) list \<Rightarrow> fields \<Rightarrow> fields option" where
  "match_bits [] flds = Some flds"
| "match_bits ((bpattern, b) # rest) flds =
     (if bpattern = CHR ''0'' \<and> b = 1 then None
      else if bpattern = CHR ''1'' \<and> b = 0 then None
      else match_bits rest
             (flds(bpattern \<mapsto>
                (push_bit 1 (case flds bpattern of None \<Rightarrow> 0 | Some v \<Rightarrow> v)) OR b)))"

definition pattern_match :: "machine \<Rightarrow> ifunc \<Rightarrow> byte list \<Rightarrow> error + fields option" where
  "pattern_match m func instr =
     (if int (length instr) \<noteq> isize m then Inl (ISAError InstructionWrongBytes)
      else (case extract_pattern m func of
              Inl e \<Rightarrow> Inl e
            | Inr pattern \<Rightarrow>
               (case from_bytes instr (endian m) of
                  Inl e \<Rightarrow> Inl e
                | Inr instr_as_integer \<Rightarrow>
                   Inr (match_bits
                          (zip pattern (list_of_bits instr_as_integer (isize m * 8)))
                          Map.empty))))"

fun decode_loop :: "machine \<Rightarrow> ifunc list \<Rightarrow> byte list \<Rightarrow> error + ifunc \<times> fields" where
  "decode_loop m [] instr = Inl (ISAError UnableToDecode)"
| "decode_loop m (func # funcs) instr =
     (case pattern_match m func instr of
        Inl e \<Rightarrow> Inl e
      | Inr None \<Rightarrow> decode_loop m funcs instr
      | Inr (Some ifield) \<Rightarrow> Inr (func, ifield))"

definition decode :: "isa \<Rightarrow> machine \<Rightarrow> byte list \<Rightarrow> error + ifunc \<times> fields" where
  "decode i m instr = decode_loop m (ifuncs i) instr"

section \<open>Disassembly formatter\<close>

definition extract_asm :: "ifunc \<Rightarrow> error + string" where
  "extract_asm ifunction =
     (case doc ifunction of
        None \<Rightarrow> Inl AttributeError
      | Some docstring \<Rightarrow>
         (case index (split_on CHR '':'' docstring) 2 of
            Inl e \<Rightarrow> Inl e
          | Inr asm_pattern \<Rightarrow>
             Inr (join '' '' (split_ws (strip (replace asm_pattern CHR '','' '' ''))))))"

text \<open>The nested \<open>operand_field\<close>: the field named by the one character after the sigil.\<close>

definition operand_field :: "fields \<Rightarrow> string \<Rightarrow> error + int" where
  "operand_field ifield part =
     (let fchar = drop 1 part in
      if length fchar \<noteq> 1 then Inl AssertionError
      else (case ifield (hd fchar) of
              None \<Rightarrow> Inl AttributeError
            | Some v \<Rightarrow> Inr v))"

text \<open>One operand token of the loop in \<open>_format_asm\<close> (a token with \<open>i > 0\<close>).\<close>

definition format_operand :: "fields \<Rightarrow> string \<Rightarrow> error + string" where
  "format_operand ifield part =
     (if startswith part ''$'' then
        (case operand_field ifield part of
           Inl e \<Rightarrow> Inl e
         | Inr rnum \<Rightarrow> Inr (''$'' @ str_int rnum))
      else if startswith part ''@'' then
        (case operand_field ifield part of
           Inl e \<Rightarrow> Inl e
         | Inr addr \<Rightarrow> Inr (hex (push_bit 2 addr)))
      else if startswith part ''!'' then
        (case operand_field ifield part of
           Inl e \<Rightarrow> Inl e
         | Inr immed \<Rightarrow> Inr (hex immed))
      else Inl (ISAError UnknownOperandSpecifier))"

fun format_operands :: "fields \<Rightarrow> string list \<Rightarrow> error + string list" where
  "format_operands ifield [] = Inr []"
| "format_operands ifield (part # parts) =
     (case format_operand ifield part of
        Inl e \<Rightarrow> Inl e
      | Inr t \<Rightarrow>
         (case format_operands ifield parts of
            Inl e \<Rightarrow> Inl e
          | Inr ts \<Rightarrow> Inr (t # ts)))"

definition format_asm :: "string \<Rightarrow> fields \<Rightarrow> error + string" where
  "format_asm asm_pattern ifield =
     (case split_ws asm_pattern of
        [] \<Rightarrow> Inr (join '' '' [])
      | part # parts \<Rightarrow>
         (case format_operands ifield parts of
            Inl e \<Rightarrow> Inl e
          | Inr instruction \<Rightarrow> Inr (join '' '' (part # instruction))))"

definition istring :: "ifunc \<times> fields \<Rightarrow> error + string" where
  "istring decoded_instr =
     (case decoded_instr of (ifunction, ifield) \<Rightarrow>
        (case extract_asm ifunction of
           Inl e \<Rightarrow> Inl e
         | Inr asm_pattern \<Rightarrow> format_asm asm_pattern ifield))"

section \<open>Dispatch loop\<close>

definition fetch :: "machine \<Rightarrow> error + byte list" where
  "fetch m =
     (case attrs m ''PC'' of
        None \<Rightarrow> Inl AttributeError
      | Some (DictV d) \<Rightarrow> Inl TypeError
      | Some (IntV pc) \<Rightarrow> mem_read m pc (isize m))"

definition execute :: "ifunc \<times> fields \<Rightarrow> machine \<Rightarrow> error option \<times> machine" where
  "execute decoded_instr m =
     (case decoded_instr of (ifunction, ifield) \<Rightarrow> action ifunction ifield m)"

text \<open>
  \<open>step\<close> returns the string, or the exception that ended it, together with the machine
  as the call left it: what was written before an exception stays written.
\<close>

definition step :: "isa \<Rightarrow> machine \<Rightarrow> (error + string) \<times> machine" where
  "step i m =
     (case fetch m of
        Inl e \<Rightarrow> (Inl e, m)
      | Inr instr_mem \<Rightarrow>
         (case decode i m instr_mem of
            Inl e \<Rightarrow> (Inl e, m)
          | Inr decoded_instr \<Rightarrow>
             (case execute decoded_instr m of
                (Some e, m1) \<Rightarrow> (Inl e, m1)
              | (None, m1) \<Rightarrow>
                 (case (case finalize_execution i of
                          None \<Rightarrow> (None, m1)
                        | Some finalize \<Rightarrow> finalize decoded_instr m1) of
                    (Some e, m2) \<Rightarrow> (Inl e, m2)
                  | (None, m2) \<Rightarrow> (istring decoded_instr, m2)))))"

section \<open>The MIPS machine definition\<close>

text \<open>
  \<open>mips.py\<close> imports \<open>sign_extend\<close> and \<open>bit_select\<close> from a module \<open>helpers\<close> that
  is not among the sources, so the instruction bodies take them as parameters;
  \<open>isa_helpers\<close> supplies the functions of these names that \<open>isa.py\<close> defines.
\<close>

record helpers =
  h_sign_extend :: "int \<Rightarrow> int \<Rightarrow> error + int"
  h_bit_select :: "int \<Rightarrow> int \<Rightarrow> int \<Rightarrow> bool \<Rightarrow> error + int"

definition isa_helpers :: helpers where
  "isa_helpers = \<lparr>h_sign_extend = sign_extend, h_bit_select = bit_select\<rparr>"

text \<open>Attribute and item access as the instruction bodies use it.\<close>

definition get_int :: "machine \<Rightarrow> string \<Rightarrow> error + int" where
  "get_int m name =
     (case attrs m name of
        None \<Rightarrow> Inl AttributeError
      | Some (DictV d) \<Rightarrow> Inl TypeError
      | Some (IntV v) \<Rightarrow> Inr v)"

definition get_attr :: "machine \<Rightarrow> string \<Rightarrow> error + pyvalue" where
  "get_attr m name = (case attrs m name of None \<Rightarrow> Inl AttributeError | Some v \<Rightarrow> Inr v)"

definition get_field :: "fields \<Rightarrow> char \<Rightarrow> error + int" where
  "get_field ifield c = (case ifield c of None \<Rightarrow> Inl AttributeError | Some v \<Rightarrow> Inr v)"

text \<open>\<open>r[k]\<close> for the value \<open>r\<close> of an attribute.\<close>

definition getitem :: "pyvalue \<Rightarrow> int \<Rightarrow> error + int" where
  "getitem r k =
     (case r of
        IntV v \<Rightarrow> Inl TypeError
      | DictV d \<Rightarrow> (case d k of None \<Rightarrow> Inl KeyError | Some v \<Rightarrow> Inr v))"

text \<open>\<open>self.R[k] = v\<close>.\<close>

definition set_R :: "int \<Rightarrow> int \<Rightarrow> machine \<Rightarrow> error option \<times> machine" where
  "set_R k v m =
     (case attrs m ''R'' of
        None \<Rightarrow> (Some AttributeError, m)
      | Some (IntV x) \<Rightarrow> (Some TypeError, m)
      | Some (DictV d) \<Rightarrow> (None, m\<lparr>attrs := (attrs m)(''R'' \<mapsto> DictV (d(k \<mapsto> v)))\<rparr>))"

definition set_PC :: "int \<Rightarrow> machine \<Rightarrow> machine" where
  "set_PC v m = m\<lparr>attrs := (attrs m)(''PC'' \<mapsto> IntV v)\<rparr>"

definition mips_rnames :: "int \<rightharpoonup> string" where
  "mips_rnames = map_of
     [(0, ''$0''), (1, ''$at''), (2, ''$v0''), (3, ''$v1''),
      (4, ''$a0''), (5, ''$a1''), (6, ''$a2''), (7, ''$a3''),
      (8, ''$t0''), (9, ''$t1''), (10, ''$t2''), (11, ''$t3''),
      (12, ''$t4''), (13, ''$t5''), (14, ''$t6''), (15, ''$t7''),
      (16, ''$s0''), (17, ''$s1''), (18, ''$s2''), (19, ''$s3''),
      (20, ''$s4''), (21, ''$s5''), (22, ''$s6''), (23, ''$s7''),
      (24, ''$t8''), (25, ''$t9''), (26, ''$k0''), (27, ''$k1''),
      (28, ''$gp''), (29, ''$sp''), (30, ''$fp''), (31, ''$ra'')]"

definition j_body :: "helpers \<Rightarrow> fields \<Rightarrow> machine \<Rightarrow> error option \<times> machine" where
  "j_body h ifield m =
     (case get_int m ''PC'' of
        Inl e \<Rightarrow> (Some e, m)
      | Inr pc \<Rightarrow>
         (case h_bit_select h (pc + 4) 31 28 False of
            Inl e \<Rightarrow> (Some e, m)
          | Inr upper_bits \<Rightarrow>
             (case get_field ifield CHR ''a'' of
                Inl e \<Rightarrow> (Some e, m)
              | Inr a \<Rightarrow> (None, set_PC (upper_bits + push_bit 2 a) m))))"

definition add_body :: "fields \<Rightarrow> machine \<Rightarrow> error option \<times> machine" where
  "add_body ifield m =
     (case get_attr m ''R'' of
        Inl e \<Rightarrow> (Some e, m)
      | Inr r \<Rightarrow>
     (case get_field ifield CHR ''s'' of
        Inl e \<Rightarrow> (Some e, m)
      | Inr s \<Rightarrow>
     (case getitem r s of
        Inl e \<Rightarrow> (Some e, m)
      | Inr vs \<Rightarrow>
     (case get_field ifield CHR ''t'' of
        Inl e \<Rightarrow> (Some e, m)
      | Inr t \<Rightarrow>
     (case getitem r t of
        Inl e \<Rightarrow> (Some e, m)
      | Inr vt \<Rightarrow>
     (case get_field ifield CHR ''d'' of
        Inl e \<Rightarrow> (Some e, m)
      | Inr d \<Rightarrow> set_R d (vs + vt) m))))))"

definition addi_body :: "helpers \<Rightarrow> fields \<Rightarrow> machine \<Rightarrow> error option \<times> machine" where
  "addi_body h ifield m =
     (case get_attr m ''R'' of
        Inl e \<Rightarrow> (Some e, m)
      | Inr r \<Rightarrow>
     (case get_field ifield CHR ''s'' of
        Inl e \<Rightarrow> (Some e, m)
      | Inr s \<Rightarrow>
     (case getitem r s of
        Inl e \<Rightarrow> (Some e, m)
      | Inr vs \<Rightarrow>
     (case get_field ifield CHR ''i'' of
        Inl e \<Rightarrow> (Some e, m)
      | Inr i \<Rightarrow>
     (case h_sign_extend h i 16 of
        Inl e \<Rightarrow> (Some e, m)
      | Inr ext \<Rightarrow>
     (case get_field ifield CHR ''t'' of
        Inl e \<Rightarrow> (Some e, m)
      | Inr t \<Rightarrow> set_R t (vs + ext) m))))))"

definition instruction_j :: "helpers \<Rightarrow> ifunc" where
  "instruction_j h =
     \<lparr>fname = ''instruction_j'',
      doc = Some ''jump: 000010 aaaaaaaaaaaaaaaaaaaaaaaaaa : j @a'',
      action = j_body h\<rparr>"

definition instruction_add :: ifunc where
  "instruction_add =
     \<lparr>fname = ''instruction_add'',
      doc = Some ''add : 000000 sssss ttttt ddddd xxxxx 100000: addi $d $s $t'',
      action = add_body\<rparr>"

definition instruction_addi :: "helpers \<Rightarrow> ifunc" where
  "instruction_addi h =
     \<lparr>fname = ''instruction_addi'',
      doc = Some ''add immediate : 001000 sssss ttttt iiiiiiiiiiiiiiii : addi $t $s !i'',
      action = addi_body h\<rparr>"

definition instruction_nop :: ifunc where
  "instruction_nop =
     \<lparr>fname = ''instruction_nop'',
      doc = Some ''nop : 000000 00000 00000 00000 00000 000000 : nop'',
      action = (\<lambda>ifield m. (None, m))\<rparr>"

text \<open>\<open>self.jumps = set([self.instruction_j])\<close>; a method is identified by its name.\<close>

definition jumps :: "string list" where
  "jumps = [''instruction_j'']"

definition Mips_finalize_execution :: "ifunc \<times> fields \<Rightarrow> machine \<Rightarrow> error option \<times> machine" where
  "Mips_finalize_execution decoded_instr m =
     (case decoded_instr of (ifunction, ifields) \<Rightarrow>
        (case set_R 0 0 m of
           (Some e, m1) \<Rightarrow> (Some e, m1)
         | (None, m1) \<Rightarrow>
            (if fname ifunction \<notin> set jumps then
               (case get_int m1 ''PC'' of
                  Inl e \<Rightarrow> (Some e, m1)
                | Inr pc \<Rightarrow> (None, set_PC (pc + 4) m1))
             else (None, m1))))"

text \<open>The class body of \<open>Mips\<close>, in the order of its declarations.\<close>

definition Mips_decls :: "helpers \<Rightarrow> ifunc list" where
  "Mips_decls h = [instruction_j h, instruction_add, instruction_addi h, instruction_nop]"

definition Mips_isa :: "helpers \<Rightarrow> isa" where
  "Mips_isa h = (IsaDefinition_init (Mips_decls h))
                  \<lparr>finalize_execution := Some Mips_finalize_execution\<rparr>"

text \<open>
  \<open>Mips.__init__\<close>: the declarations of the register file and the three scalar registers,
  then \<open>endian = 'big'\<close>. \<open>Mips_machine\<close> is the machine it returns.
\<close>

definition Mips_init :: "error + machine" where
  "Mips_init =
     (case make_register_file ''R'' 32 32 (Some mips_rnames) init_machine of
        Inl e \<Rightarrow> Inl e
      | Inr m1 \<Rightarrow>
     (case make_register ''PC'' 32 m1 of
        Inl e \<Rightarrow> Inl e
      | Inr m2 \<Rightarrow>
     (case make_register ''HI'' 32 m2 of
        Inl e \<Rightarrow> Inl e
      | Inr m3 \<Rightarrow>
     (case make_register ''LO'' 32 m3 of
        Inl e \<Rightarrow> Inl e
      | Inr m4 \<Rightarrow> Inr (m4\<lparr>endian := ''big''\<rparr>)))))"

definition Mips_machine :: machine where
  "Mips_machine =
     \<lparr>attrs = [''R'' \<mapsto> DictV (range_dict 32 (\<lambda>x. 0)), ''PC'' \<mapsto> IntV 0,
               ''HI'' \<mapsto> IntV 0, ''LO'' \<mapsto> IntV 0],
      reg_list = [FileEntry ''R'' 32 32 mips_rnames, RegEntry ''PC'' 32,
                  RegEntry ''HI'' 32, RegEntry ''LO'' 32],
      mem = None, endian = ''big'', isize = 4\<rparr>"

section \<open>Descriptions used in the statements\<close>




text \<open>One iteration of the accumulation in \<open>_pattern_match\<close>, and the bits paired with a key.\<close>

definition shift_in :: "int \<Rightarrow> int \<Rightarrow> int" where
  "shift_in acc b = push_bit 1 acc OR b"

definition bits_of :: "char \<Rightarrow> (char \<times> int) list \<Rightarrow> int list" where
  "bits_of c zs = map snd (filter (\<lambda>z. fst z = c) zs)"

text \<open>
  The entry a reader of the class body would expect: the first instruction function, in
  the order of declaration, that matches the instruction.
\<close>

definition matches :: "machine \<Rightarrow> byte list \<Rightarrow> ifunc \<Rightarrow> bool" where
  "matches m instr func =
     (case pattern_match m func instr of Inr (Some ifield) \<Rightarrow> True | _ \<Rightarrow> False)"

definition declared_earliest_match :: "machine \<Rightarrow> ifunc list \<Rightarrow> byte list \<Rightarrow> ifunc option" where
  "declared_earliest_match m decls instr = find (matches m instr) decls"

text \<open>Instruction functions with a given name, docstring and an empty body.\<close>

definition plain_ifunc :: "string \<Rightarrow> string \<Rightarrow> ifunc" where
  "plain_ifunc name docstring =
     \<lparr>fname = name, doc = Some docstring, action = (\<lambda>ifield m. (None, m))\<rparr>"

text \<open>
  A class that declares \<open>instruction_b\<close>, whose template matches every word, before
  \<open>instruction_a\<close>, whose template matches the word 0.
\<close>

definition instruction_b_any :: ifunc where
  "instruction_b_any =
     plain_ifunc ''instruction_b'' ''any : xxxxxxxx xxxxxxxx xxxxxxxx xxxxxxxx : any''"

definition instruction_a_zero :: ifunc where
  "instruction_a_zero =
     plain_ifunc ''instruction_a'' ''zero : 00000000 00000000 00000000 00000000 : zero''"

text \<open>An instruction function whose template has 31 characters.\<close>

definition instruction_z_short :: ifunc where
  "instruction_z_short =
     plain_ifunc ''instruction_z'' ''short : 0000000 00000000 00000000 11111111 : short''"

text \<open>
  The rendering of one operand as the specification describes it, by sigil and raw field
  value, and the token \<open>sigil + field identifier\<close> of a disassembly template.
\<close>

definition spec_render :: "char \<times> char \<times> int \<Rightarrow> string" where
  "spec_render op =
     (case op of (sigil, c, v) \<Rightarrow>
        if sigil = CHR ''$'' then ''$'' @ str_int v
        else if sigil = CHR ''@'' then hex (push_bit 2 v)
        else hex v)"

definition operand_token :: "char \<times> char \<times> int \<Rightarrow> string" where
  "operand_token op = (case op of (sigil, c, v) \<Rightarrow> [sigil, c])"

text \<open>An operand has a known sigil and names a field of the field set that holds its value.\<close>

definition known_operand :: "fields \<Rightarrow> char \<times> char \<times> int \<Rightarrow> bool" where
  "known_operand ifield op =
     (case op of (sigil, c, v) \<Rightarrow>
        (sigil = CHR ''$'' \<or> sigil = CHR ''@'' \<or> sigil = CHR ''!'') \<and> ifield c = Some v)"

text \<open>
  An instruction function whose body sets the program counter to 42 and whose disassembly
  template has the operand \<open>%x\<close>, and a machine with a program counter and four bytes of
  memory, as \<open>make_register('PC')\<close> and \<open>mem_map(0, 4)\<close> leave it.
\<close>

definition instruction_bad_sigil :: ifunc where
  "instruction_bad_sigil =
     \<lparr>fname = ''instruction_bad'',
      doc = Some ''bad : xxxxxxxx xxxxxxxx xxxxxxxx xxxxxxxx : bad %x'',
      action = (\<lambda>ifield m. (None, set_PC 42 m))\<rparr>"

definition small_machine :: machine where
  "small_machine =
     \<lparr>attrs = [''PC'' \<mapsto> IntV 0], reg_list = [RegEntry ''PC'' 32],
      mem = Some [0, 0, 0, 0], endian = ''big'', isize = 4\<rparr>"

text \<open>The MIPS machine with the instruction of the scenario at address 0.\<close>

definition scenario_machine :: machine where
  "scenario_machine = Mips_machine\<lparr>mem := Some [0x21, 0x08, 0x00, 0x04]\<rparr>"

text \<open>The MIPS machine with the instruction \<open>j 3\<close> at address 0.\<close>

definition jump_machine :: machine where
  "jump_machine = Mips_machine\<lparr>mem := Some [0x08, 0x00, 0x00, 0x03]\<rparr>"

text \<open>
  A machine built from declarations: the calls \<open>make_register(name, bits)\<close> and
  \<open>make_register_file(name, size, bits, rnames)\<close> made, in order, on a new object; the
  result is the machine, or the exception of the first declaration that raised.
\<close>

datatype reg_decl =
    DeclRegister string int
  | DeclRegisterFile string int int "(int \<rightharpoonup> string) option"

fun apply_decl :: "reg_decl \<Rightarrow> machine \<Rightarrow> error + machine" where
  "apply_decl (DeclRegister name bits) m = make_register name bits m"
| "apply_decl (DeclRegisterFile name sz bits rnames) m = make_register_file name sz bits rnames m"

fun decl_name :: "reg_decl \<Rightarrow> string" where
  "decl_name (DeclRegister name bits) = name"
| "decl_name (DeclRegisterFile name sz bits rnames) = name"

fun build_from :: "reg_decl list \<Rightarrow> machine \<Rightarrow> error + machine" where
  "build_from [] m = Inr m"
| "build_from (d # ds) m =
     (case apply_decl d m of Inl e \<Rightarrow> Inl e | Inr m' \<Rightarrow> build_from ds m')"

definition build_machine :: "reg_decl list \<Rightarrow> error + machine" where
  "build_machine decls = build_from decls init_machine"

text \<open>
  The enumeration as the specification describes it: one triple per scalar register, and
  for a register file one triple per index \<open>0..size-1\<close>, named by the override or else
  \<open>$<name><index>\<close>; \<open>sv\<close> and \<open>fv\<close> give the current values of scalars and file entries.
\<close>

definition display_name :: "string \<Rightarrow> (int \<rightharpoonup> string) option \<Rightarrow> int \<Rightarrow> string" where
  "display_name name rnames i =
     (case rnames of
        None \<Rightarrow> ''$'' @ name @ str_int i
      | Some r \<Rightarrow> (case r i of None \<Rightarrow> [] | Some n \<Rightarrow> n))"

fun spec_triples ::
  "(string \<Rightarrow> pyvalue) \<Rightarrow> (string \<Rightarrow> int \<Rightarrow> int) \<Rightarrow> reg_decl \<Rightarrow> (string \<times> int \<times> pyvalue) list" where
  "spec_triples sv fv (DeclRegister name bits) = [(name, bits, sv name)]"
| "spec_triples sv fv (DeclRegisterFile name sz bits rnames) =
     map (\<lambda>i. (display_name name rnames i, bits, IntV (fv name i))) [0..sz - 1]"

definition scalar_value :: "(string \<rightharpoonup> pyvalue) \<Rightarrow> string \<Rightarrow> pyvalue" where
  "scalar_value vals name = (case vals name of None \<Rightarrow> IntV 0 | Some v \<Rightarrow> v)"

definition file_value :: "(string \<rightharpoonup> pyvalue) \<Rightarrow> string \<Rightarrow> int \<Rightarrow> int" where
  "file_value vals name i =
     (case vals name of
        Some (DictV d) \<Rightarrow> (case d i of None \<Rightarrow> 0 | Some v \<Rightarrow> v)
      | _ \<Rightarrow> 0)"

text \<open>
  An attribute store holds the registers of a declaration: a value for a scalar, a
  dictionary with an entry for every index for a file. An override is total when it
  names every index of its file.
\<close>

fun holds_values :: "(string \<rightharpoonup> pyvalue) \<Rightarrow> reg_decl \<Rightarrow> bool" where
  "holds_values vals (DeclRegister name bits) = (vals name \<noteq> None)"
| "holds_values vals (DeclRegisterFile name sz bits rnames) =
     (case vals name of
        Some (DictV d) \<Rightarrow> list_all (\<lambda>i. d i \<noteq> None) [0..sz - 1]
      | _ \<Rightarrow> False)"

fun override_total :: "reg_decl \<Rightarrow> bool" where
  "override_total (DeclRegister name bits) = True"
| "override_total (DeclRegisterFile name sz bits None) = True"
| "override_total (DeclRegisterFile name sz bits (Some r)) = list_all (\<lambda>i. r i \<noteq> None) [0..sz - 1]"

text \<open>The entry that a declaration appends to \<open>_reg_list\<close>, and the value it sets.\<close>

fun entry_of :: "reg_decl \<Rightarrow> reg_entry" where
  "entry_of (DeclRegister name bits) = RegEntry name bits"
| "entry_of (DeclRegisterFile name sz bits rnames) =
     FileEntry name bits sz
       (case rnames of None \<Rightarrow> range_dict sz (\<lambda>x. ''$'' @ name @ str_int x) | Some r \<Rightarrow> r)"

fun init_value :: "reg_decl \<Rightarrow> pyvalue" where
  "init_value (DeclRegister name bits) = IntV 0"
| "init_value (DeclRegisterFile name sz bits rnames) = DictV (range_dict sz (\<lambda>x. 0))"

text \<open>Declarations used as examples: two register files and a scalar register.\<close>

definition example_decls :: "reg_decl list" where
  "example_decls =
     [DeclRegisterFile ''R'' 2 32 None,
      DeclRegister ''PC'' 32,
      DeclRegisterFile ''F'' 2 64 (Some [0 \<mapsto> ''$f0'', 1 \<mapsto> ''$f1''])]"

definition example_values :: "string \<rightharpoonup> pyvalue" where
  "example_values =
     [''R'' \<mapsto> DictV [0 \<mapsto> 0, 1 \<mapsto> 7], ''PC'' \<mapsto> IntV 4, ''F'' \<mapsto> DictV [0 \<mapsto> 1, 1 \<mapsto> 2]]"

section \<open>Properties of the bit utilities\<close>

lemma mask_n_nonneg: "0 \<le> n \<Longrightarrow> mask_n n = Inr (mask (nat n))"
  by (simp add: mask_n_def lshift_def mask_eq_exp_minus_1)

lemma and_not_mask_zero_iff: "(i AND NOT (mask n)) = 0 \<longleftrightarrow> (\<forall>k\<ge>n. \<not> bit (i::int) k)"
  by (auto simp add: bit_eq_iff bit_and_iff bit_not_iff bit_mask_iff not_less)

lemma range_no_upper:
  assumes "0 \<le> i" "i < 2 ^ n" "n \<le> k"
  shows "\<not> bit (i::int) k"
proof -
  have "take_bit n i = i"
    using assms by (simp add: take_bit_int_eq_self)
  then have "bit i k = bit (take_bit n i) k"
    by simp
  also have "\<dots> = (k < n \<and> bit i k)"
    by (simp only: bit_take_bit_iff)
  finally show ?thesis
    using assms by simp
qed

lemma or_not_mask:
  assumes "0 \<le> i" "i < 2 ^ n"
  shows "(i::int) OR NOT (mask n) = i - 2 ^ n"
proof -
  have z: "i AND NOT (mask n) = 0"
    using assms by (simp add: and_not_mask_zero_iff range_no_upper)
  have "i + NOT (mask n) = i OR NOT (mask n)"
    by (rule disjunctive_add_eq_or) (rule z)
  moreover have "NOT (mask n) = - (2 ^ n :: int)"
    by (simp add: minus_exp_eq_not_mask)
  ultimately show ?thesis
    by simp
qed

lemma and_exp_zero_iff: "(i::int) AND 2 ^ n = 0 \<longleftrightarrow> \<not> bit i n"
  using bit_iff_and_push_bit_not_eq_0 [of i n] by simp

text \<open>
  Claim C7. For every \<open>bits \<ge> 1\<close>: when \<open>0 \<le> i < 2^bits\<close>, \<open>sign_extend(i, bits)\<close> returns
  \<open>i\<close> if bit \<open>bits-1\<close> of \<open>i\<close> is 0 and \<open>i - 2^bits\<close> otherwise; and when some bit of \<open>i\<close> at a
  position \<open>\<ge> bits\<close> is set, it raises the \<open>ISAError\<close> "upper bits of i not 0" (the spec's
  \<open>OutOfRangeValue\<close>).
\<close>

theorem sign_extend_spec:
  "1 \<le> bits \<Longrightarrow>
     (0 \<le> i \<and> i < 2 ^ nat bits \<longrightarrow>
        sign_extend i bits = Inr (if \<not> bit i (nat (bits - 1)) then i else i - 2 ^ nat bits))
   \<and> ((\<exists>k\<ge>nat bits. bit i k) \<longrightarrow> sign_extend i bits = Inl (ISAError UpperBitsNotZero))"
proof (intro conjI impI)
  assume b: "1 \<le> bits" and r: "0 \<le> i \<and> i < 2 ^ nat bits"
  have z: "i AND NOT (mask (nat bits)) = 0"
    using r range_no_upper [of i "nat bits"] by (simp add: and_not_mask_zero_iff)
  show "sign_extend i bits = Inr (if \<not> bit i (nat (bits - 1)) then i else i - 2 ^ nat bits)"
    using b r z
    by (simp add: sign_extend_def mask_n_nonneg lshift_def and_exp_zero_iff or_not_mask)
next
  assume b: "1 \<le> bits" and u: "\<exists>k\<ge>nat bits. bit i k"
  then have "i AND NOT (mask (nat bits)) \<noteq> 0"
    by (simp add: and_not_mask_zero_iff)
  then show "sign_extend i bits = Inl (ISAError UpperBitsNotZero)"
    using b by (simp add: sign_extend_def mask_n_nonneg)
qed

theorem sign_extend_spec_witness:
  "sign_extend 15 4 = Inr (- 1) \<and> sign_extend 7 4 = Inr 7
   \<and> sign_extend 16 4 = Inl (ISAError UpperBitsNotZero)"
proof -
  have e: "\<exists>k\<ge>nat 4. bit (16::int) k"
    by (rule exI [of _ 4]) simp
  have n3: "nat (4 - 1) = 3" and n4: "nat 4 = 4"
    by simp_all
  have b15: "bit (15::int) 3" and b7: "\<not> bit (7::int) 3"
    by simp_all
  have a: "sign_extend 15 4 = Inr (15 - 2 ^ 4)"
    using sign_extend_spec [of 4 15] b15 by (simp only: n3 n4) simp
  have b: "sign_extend 7 4 = Inr 7"
    using sign_extend_spec [of 4 7] b7 by (simp only: n3 n4) simp
  have c: "sign_extend 16 4 = Inl (ISAError UpperBitsNotZero)"
    using sign_extend_spec [of 4 16] e by simp
  show ?thesis
    using a b c by simp
qed

section \<open>Properties of the pattern decode engine\<close>

lemma filter_fst_notin: "c \<notin> fst ` set zs \<Longrightarrow> filter (\<lambda>z. fst z = c) zs = []"
  by (induction zs) auto

lemma match_bits_result:
  "match_bits zs f = Some g \<Longrightarrow>
     g c = (if c \<in> fst ` set zs
            then Some (foldl shift_in (case f c of None \<Rightarrow> 0 | Some v \<Rightarrow> v) (bits_of c zs))
            else f c)"
proof (induction zs arbitrary: f)
  case Nil
  then show ?case by (simp add: bits_of_def)
next
  case (Cons z zs)
  obtain p b where z: "z = (p, b)" by (cases z)
  let ?f' = "f(p \<mapsto> shift_in (case f p of None \<Rightarrow> 0 | Some v \<Rightarrow> v) b)"
  from Cons.prems z have m: "match_bits zs ?f' = Some g"
    by (simp add: shift_in_def split: if_splits)
  from Cons.IH [OF m] show ?case
    using z by (auto simp add: bits_of_def filter_fst_notin)
qed

lemma match_bits_literals:
  "match_bits zs f = Some g \<Longrightarrow> (p, b) \<in> set zs \<Longrightarrow>
     (p = CHR ''0'' \<longrightarrow> b \<noteq> 1) \<and> (p = CHR ''1'' \<longrightarrow> b \<noteq> 0)"
proof (induction zs arbitrary: f)
  case Nil
  then show ?case by simp
next
  case (Cons z zs)
  then show ?case
    by (cases z) (auto split: if_splits)
qed

lemma length_list_of_bits: "length (list_of_bits n w) = nat w"
  by (simp add: list_of_bits_def)

lemma drop_bit_and_one: "(drop_bit k (n::int)) AND 1 = (if bit n k then 1 else 0)"
  by (auto simp add: and_one_eq bit_iff_odd_drop_bit simp flip: odd_iff_mod_2_eq_one)


lemma set_list_of_bits: "b \<in> set (list_of_bits n w) \<Longrightarrow> b = 0 \<or> b = 1"
  by (auto simp add: list_of_bits_def drop_bit_and_one)

lemma shift_in_bit: "b = 0 \<or> b = 1 \<Longrightarrow> shift_in acc b = 2 * acc + b"
  by (auto simp add: shift_in_def or_one_eq)


lemma extract_pattern_length:
  "extract_pattern m func = Inr pattern \<Longrightarrow> int (length pattern) = isize m * 8"
  by (auto simp add: extract_pattern_def split: option.splits sum.splits if_splits)

lemma pattern_match_Some:
  "pattern_match m func instr = Inr (Some flds) \<Longrightarrow>
     int (length instr) = isize m \<and>
     (\<exists>pattern n. extract_pattern m func = Inr pattern \<and> from_bytes instr (endian m) = Inr n \<and>
        match_bits (zip pattern (list_of_bits n (isize m * 8))) Map.empty = Some flds)"
  by (auto simp add: pattern_match_def split: if_splits sum.splits)

lemma decode_loop_Inr:
  "decode_loop m funcs instr = Inr (func, flds) \<Longrightarrow>
     func \<in> set funcs \<and> pattern_match m func instr = Inr (Some flds)"
  by (induction funcs) (auto split: sum.splits option.splits)

lemma decode_loop_skip:
  "\<forall>g\<in>set pre. pattern_match m g instr = Inr None \<Longrightarrow>
     decode_loop m (pre @ rest) instr = decode_loop m rest instr"
  by (induction pre) simp_all



subsection \<open>The MIPS catalog on concrete words\<close>

lemma Mips_ifuncs:
  "init_ifuncs (Mips_decls h) = [instruction_add, instruction_addi h, instruction_j h, instruction_nop]"
  by (simp add: init_ifuncs_def Mips_decls_def dir_names_def getattr_method_def startswith_def
     instruction_j_def instruction_add_def instruction_addi_def instruction_nop_def
     List.map_filter_simps)

lemma Mips_init_machine: "Mips_init = Inr Mips_machine"
  by (simp add: Mips_init_def Mips_machine_def make_register_def make_register_file_def
      setattr_raises_def init_machine_def)

lemma Mips_machine_cfg: "isize Mips_machine = 4" "endian Mips_machine = ''big''"
  by (simp_all add: Mips_machine_def)

lemma pattern_add:
  "isize m = 4 \<Longrightarrow> extract_pattern m instruction_add = Inr ''000000ssssstttttdddddxxxxx100000''"
  by (simp add: extract_pattern_def instruction_add_def replace_def index_def)

lemma pattern_addi:
  "isize m = 4 \<Longrightarrow> extract_pattern m (instruction_addi h) = Inr ''001000ssssstttttiiiiiiiiiiiiiiii''"
  by (simp add: extract_pattern_def instruction_addi_def replace_def index_def)

lemma pattern_j:
  "isize m = 4 \<Longrightarrow> extract_pattern m (instruction_j h) = Inr ''000010aaaaaaaaaaaaaaaaaaaaaaaaaa''"
  by (simp add: extract_pattern_def instruction_j_def replace_def index_def)

lemma pattern_nop:
  "isize m = 4 \<Longrightarrow> extract_pattern m instruction_nop = Inr ''00000000000000000000000000000000''"
  by (simp add: extract_pattern_def instruction_nop_def replace_def index_def)

lemma from_bytes_scenario: "from_bytes [0x21, 0x08, 0x00, 0x04] ''big'' = Inr 554172420"
  by (simp add: from_bytes_def)

lemma list_of_bits_scenario:
  "list_of_bits 554172420 32 =
     [0,0,1,0,0,0,0,1, 0,0,0,0,1,0,0,0, 0,0,0,0,0,0,0,0, 0,0,0,0,0,1,0,0]"
  by code_simp

lemma decode_scenario:
  "\<exists>flds. decode (Mips_isa h) Mips_machine [0x21, 0x08, 0x00, 0x04] = Inr (instruction_addi h, flds)
     \<and> flds CHR ''s'' = Some 8 \<and> flds CHR ''t'' = Some 8 \<and> flds CHR ''i'' = Some 4
     \<and> flds CHR ''0'' = Some 0 \<and> flds CHR ''1'' = Some 1"
  by (simp add: decode_def Mips_isa_def IsaDefinition_init_def Mips_ifuncs pattern_match_def
      Mips_machine_cfg pattern_add pattern_addi from_bytes_scenario list_of_bits_scenario)



lemma count_filter_zip:
  "length xs = length ys \<Longrightarrow> length (filter (\<lambda>z. fst z = c) (zip xs ys)) = count_list xs c"
  by (induction xs ys rule: list_induct2) simp_all

lemma foldl_shift_in_ones:
  "\<forall>b\<in>set bs. b = 1 \<Longrightarrow> foldl shift_in acc bs = (acc + 1) * 2 ^ length bs - 1"
proof (induction bs arbitrary: acc)
  case Nil
  then show ?case by simp
next
  case (Cons b bs)
  then have "foldl shift_in (shift_in acc b) bs = (shift_in acc b + 1) * 2 ^ length bs - 1"
    by simp
  moreover have "shift_in acc b = 2 * acc + 1"
    using Cons.prems by (simp add: shift_in_bit)
  ultimately show ?case
    by (simp add: algebra_simps)
qed

lemma foldl_shift_in_zeros:
  "\<forall>b\<in>set bs. b = 0 \<Longrightarrow> foldl shift_in 0 bs = 0"
  by (induction bs) (simp_all add: shift_in_def)

text \<open>
  Claim C10. Whenever \<open>decode\<close> returns an instruction function with a field set, the keys
  of the field set are exactly the characters of the function's template, literals included:
  if the template contains \<open>0\<close> the key \<open>0\<close> holds 0, and if it contains \<open>1\<close> the key \<open>1\<close>
  holds \<open>2^k - 1\<close>, where \<open>k\<close> is the number of \<open>1\<close> characters in the template.
\<close>

theorem decode_literal_keys:
  assumes d: "decode i m instr = Inr (func, flds)" and p: "extract_pattern m func = Inr pattern"
  shows "dom flds = set pattern
     \<and> (CHR ''0'' \<in> set pattern \<longrightarrow> flds CHR ''0'' = Some 0)
     \<and> (CHR ''1'' \<in> set pattern \<longrightarrow> flds CHR ''1'' = Some (2 ^ count_list pattern CHR ''1'' - 1))"
proof -
  from d have pm: "pattern_match m func instr = Inr (Some flds)"
    by (simp add: decode_def decode_loop_Inr)
  from pattern_match_Some [OF pm] p obtain n where
    mb: "match_bits (zip pattern (list_of_bits n (isize m * 8))) Map.empty = Some flds"
    by auto
  let ?bits = "list_of_bits n (isize m * 8)"
  let ?zs = "zip pattern ?bits"
  have len: "length ?bits = length pattern"
    using extract_pattern_length [OF p] by (simp add: length_list_of_bits)
  have fst_zs: "fst ` set ?zs = set pattern"
    using len by (metis map_fst_zip set_map)
  have res: "flds c = (if c \<in> set pattern then Some (foldl shift_in 0 (bits_of c ?zs)) else None)" for c
    using match_bits_result [OF mb, of c] fst_zs by simp
  have dom: "dom flds = set pattern"
    using res by (auto simp add: dom_def)
  have bit01: "b = 0 \<or> b = 1" if "(q, b) \<in> set ?zs" for q b
    using that by (auto dest!: set_zip_rightD set_list_of_bits)
  have zeros: "\<forall>b\<in>set (bits_of CHR ''0'' ?zs). b = 0"
    using match_bits_literals [OF mb] bit01 by (fastforce simp add: bits_of_def)
  have ones: "\<forall>b\<in>set (bits_of CHR ''1'' ?zs). b = 1"
    using match_bits_literals [OF mb] bit01 by (fastforce simp add: bits_of_def)
  have k: "length (bits_of CHR ''1'' ?zs) = count_list pattern CHR ''1''"
    using len by (simp add: bits_of_def count_filter_zip)
  have z: "CHR ''0'' \<in> set pattern \<longrightarrow> flds CHR ''0'' = Some 0"
    using res [of "CHR ''0''"] foldl_shift_in_zeros [OF zeros] by simp
  have o: "CHR ''1'' \<in> set pattern \<longrightarrow> flds CHR ''1'' = Some (2 ^ count_list pattern CHR ''1'' - 1)"
    using res [of "CHR ''1''"] foldl_shift_in_ones [OF ones, of 0] k by simp
  from dom z o show ?thesis
    by simp
qed

theorem decode_literal_keys_witness:
  "\<exists>flds. decode (Mips_isa isa_helpers) Mips_machine [0x21, 0x08, 0x00, 0x04]
            = Inr (instruction_addi isa_helpers, flds)
     \<and> dom flds = {CHR ''0'', CHR ''1'', CHR ''s'', CHR ''t'', CHR ''i''}
     \<and> flds CHR ''0'' = Some 0 \<and> flds CHR ''1'' = Some 1"
proof -
  from decode_scenario [of isa_helpers] obtain flds where
    d: "decode (Mips_isa isa_helpers) Mips_machine [0x21, 0x08, 0x00, 0x04]
          = Inr (instruction_addi isa_helpers, flds)"
    by blast
  have p: "extract_pattern Mips_machine (instruction_addi isa_helpers)
          = Inr ''001000ssssstttttiiiiiiiiiiiiiiii''"
    by (simp add: pattern_addi Mips_machine_cfg)
  from decode_literal_keys [OF d p]
  have "dom flds = {CHR ''0'', CHR ''1'', CHR ''s'', CHR ''t'', CHR ''i''}
     \<and> flds CHR ''0'' = Some 0 \<and> flds CHR ''1'' = Some 1"
    by auto
  with d show ?thesis
    by blast
qed

subsection \<open>Catalog order and decode failures\<close>

lemma find_SomeD: "find P xs = Some d \<Longrightarrow> P d \<and> d \<in> set xs"
  by (induction xs) (auto split: if_splits)

lemma getattr_method_found:
  assumes "f \<in> fname ` set decls"
  shows "\<exists>d. getattr_method decls f = Some d \<and> fname d = f \<and> d \<in> set decls"
proof (cases "getattr_method decls f")
  case None
  then show ?thesis
    using assms by (auto simp add: getattr_method_def find_None_iff)
next
  case (Some d)
  then have "fname d = f \<and> d \<in> set (rev decls)"
    unfolding getattr_method_def by (rule find_SomeD)
  with Some show ?thesis
    by simp
qed

lemma map_fname_map_filter:
  "\<forall>n\<in>set ns. \<exists>d. g n = Some d \<and> fname d = n \<Longrightarrow> map fname (List.map_filter g ns) = ns"
  by (induction ns) (auto simp add: List.map_filter_simps)

lemma names_init_ifuncs:
  "map fname (init_ifuncs decls)
     = filter (\<lambda>f. startswith f ''instruction_'') (sort (remdups (map fname decls)))"
  unfolding init_ifuncs_def dir_names_def
proof (rule map_fname_map_filter, rule ballI)
  fix n assume "n \<in> set (filter (\<lambda>f. startswith f ''instruction_'') (sort (remdups (map fname decls))))"
  then have "n \<in> fname ` set decls"
    by auto
  from getattr_method_found [OF this]
  show "\<exists>d. getattr_method decls n = Some d \<and> fname d = n"
    by blast
qed

lemma sorted_names_init_ifuncs: "sorted_wrt (<) (map fname (init_ifuncs decls))"
proof -
  have "sorted (sort (remdups (map fname decls)))" "distinct (sort (remdups (map fname decls)))"
    by simp_all
  then have "sorted_wrt (<) (sort (remdups (map fname decls)))"
    by (simp add: strict_sorted_iff)
  then show ?thesis
    unfolding names_init_ifuncs by (rule sorted_wrt_filter)
qed

lemma decode_first_match:
  assumes "ifuncs i = pre @ func # post" "\<forall>g\<in>set pre. pattern_match m g instr = Inr None"
  shows "decode i m instr =
     (case pattern_match m func instr of
        Inl e \<Rightarrow> Inl e
      | Inr None \<Rightarrow> decode_loop m post instr
      | Inr (Some ifield) \<Rightarrow> Inr (func, ifield))"
  using assms by (simp add: decode_def decode_loop_skip)

lemma list_of_bits_zero:
  "list_of_bits 0 32 =
     [0,0,0,0,0,0,0,0, 0,0,0,0,0,0,0,0, 0,0,0,0,0,0,0,0, 0,0,0,0,0,0,0,0]"
  by code_simp

text \<open>
  Claim C1 as stated fails. A class declares \<open>instruction_b\<close> (matching every word) before
  \<open>instruction_a\<close> (matching the word 0). For the word 0 the earliest declared matching
  function is \<open>instruction_b\<close>, but \<open>decode\<close> returns \<open>instruction_a\<close>: \<open>__init__\<close> takes
  the names from \<open>dir(self)\<close>, which sorts them.
\<close>

theorem decode_not_declaration_order:
  "map_option fname
     (declared_earliest_match init_machine [instruction_b_any, instruction_a_zero] [0, 0, 0, 0])
     = Some ''instruction_b''
   \<and> map_sum id (fname \<circ> fst)
       (decode (IsaDefinition_init [instruction_b_any, instruction_a_zero]) init_machine [0, 0, 0, 0])
     = Inr ''instruction_a''"
  by (simp add: declared_earliest_match_def matches_def decode_def IsaDefinition_init_def
      init_ifuncs_def dir_names_def getattr_method_def startswith_def List.map_filter_simps
      instruction_b_any_def instruction_a_zero_def plain_ifunc_def pattern_match_def
      extract_pattern_def replace_def index_def init_machine_def from_bytes_def
      list_of_bits_zero)


lemma catalog_b_a:
  "init_ifuncs [instruction_b_any, instruction_a_zero] = [instruction_a_zero, instruction_b_any]"
  by (simp add: init_ifuncs_def dir_names_def getattr_method_def startswith_def
      List.map_filter_simps instruction_b_any_def instruction_a_zero_def plain_ifunc_def)

lemma pattern_match_a_zero:
  "\<exists>flds. pattern_match init_machine instruction_a_zero [0, 0, 0, 0] = Inr (Some flds)"
  by (simp add: instruction_a_zero_def plain_ifunc_def pattern_match_def
      extract_pattern_def replace_def index_def init_machine_def from_bytes_def list_of_bits_zero)

text \<open>
  Claim C1, amended. The catalog built by \<open>__init__\<close> holds the declared \<open>instruction_\<close>
  functions in strictly ascending order of their names (the order of \<open>dir\<close>), not in the
  order of declaration; and \<open>decode\<close> returns the first entry in that order whose literal
  bits match, provided the entries before it do not match and do not raise.
\<close>

theorem decode_priority_is_name_order:
  "sorted_wrt (<) (map fname (ifuncs (IsaDefinition_init decls)))
   \<and> set (map fname (ifuncs (IsaDefinition_init decls)))
       = {n \<in> fname ` set decls. startswith n ''instruction_''}
   \<and> (\<forall>pre func post m instr flds.
         ifuncs (IsaDefinition_init decls) = pre @ func # post
         \<and> (\<forall>g\<in>set pre. pattern_match m g instr = Inr None)
         \<and> pattern_match m func instr = Inr (Some flds)
         \<longrightarrow> decode (IsaDefinition_init decls) m instr = Inr (func, flds))"
proof (intro conjI allI impI)
  show "sorted_wrt (<) (map fname (ifuncs (IsaDefinition_init decls)))"
    by (simp add: IsaDefinition_init_def sorted_names_init_ifuncs)
next
  show "set (map fname (ifuncs (IsaDefinition_init decls)))
       = {n \<in> fname ` set decls. startswith n ''instruction_''}"
    unfolding IsaDefinition_init_def by (auto simp add: names_init_ifuncs)
next
  fix pre func post m instr flds
  assume a: "ifuncs (IsaDefinition_init decls) = pre @ func # post
         \<and> (\<forall>g\<in>set pre. pattern_match m g instr = Inr None)
         \<and> pattern_match m func instr = Inr (Some flds)"
  from a have c: "ifuncs (IsaDefinition_init decls) = pre @ func # post"
    and n: "\<forall>g\<in>set pre. pattern_match m g instr = Inr None"
    by simp_all
  have "decode (IsaDefinition_init decls) m instr =
     (case pattern_match m func instr of
        Inl e \<Rightarrow> Inl e
      | Inr None \<Rightarrow> decode_loop m post instr
      | Inr (Some ifield) \<Rightarrow> Inr (func, ifield))"
    by (rule decode_first_match [OF c n])
  with a show "decode (IsaDefinition_init decls) m instr = Inr (func, flds)"
    by simp
qed



text \<open>
  Claim C3 as stated fails. A class with a 31-character template (\<open>instruction_z\<close>) and a
  template that matches every word (\<open>instruction_b\<close>) is constructed with both in its
  catalog, and \<open>decode\<close> of a four-byte word returns \<open>instruction_b\<close> normally: nothing was
  raised at construction, and the short template is never inspected.
\<close>

theorem short_template_passes_construction:
  "extract_pattern init_machine instruction_z_short = Inl (ISAError FormatWrongBits)
   \<and> map fname (ifuncs (IsaDefinition_init [instruction_z_short, instruction_b_any]))
       = [''instruction_b'', ''instruction_z'']
   \<and> map_sum id (fname \<circ> fst)
       (decode (IsaDefinition_init [instruction_z_short, instruction_b_any]) init_machine [0, 0, 0, 0])
     = Inr ''instruction_b''"
  by (simp add: decode_def IsaDefinition_init_def
      init_ifuncs_def dir_names_def getattr_method_def startswith_def List.map_filter_simps
      instruction_b_any_def instruction_z_short_def plain_ifunc_def pattern_match_def
      extract_pattern_def replace_def index_def init_machine_def from_bytes_def
      list_of_bits_zero)

text \<open>
  Claim C3, amended. Construction checks no template. A template whose length differs
  from \<open>isize * 8\<close> raises the \<open>ISAError\<close> "format for ... is n bits not m" (the spec's
  \<open>CatalogTemplateError\<close>) inside \<open>decode\<close>, when the scan of the catalog reaches its entry:
  the buffer has \<open>isize\<close> bytes and every earlier entry fails to match.
\<close>

theorem template_length_checked_by_decode:
  assumes "ifuncs i = pre @ func # post"
    and "\<forall>g\<in>set pre. pattern_match m g instr = Inr None"
    and "int (length instr) = isize m"
    and "doc func = Some docstring"
    and "index (split_on CHR '':'' (replace docstring CHR '' '' [])) 1 = Inr clean_format"
    and "int (length clean_format) \<noteq> isize m * 8"
  shows "decode i m instr = Inl (ISAError FormatWrongBits)"
proof -
  have "extract_pattern m func = Inl (ISAError FormatWrongBits)"
    using assms(4-6) by (simp add: extract_pattern_def)
  then have "pattern_match m func instr = Inl (ISAError FormatWrongBits)"
    using assms(3) by (simp add: pattern_match_def)
  then show ?thesis
    using decode_first_match [OF assms(1,2)] by simp
qed

theorem template_length_checked_by_decode_witness:
  "decode (IsaDefinition_init [instruction_z_short]) init_machine [0, 0, 0, 0]
     = Inl (ISAError FormatWrongBits)"
proof -
  have c: "ifuncs (IsaDefinition_init [instruction_z_short]) = [] @ instruction_z_short # []"
    by (simp add: IsaDefinition_init_def init_ifuncs_def dir_names_def getattr_method_def
        startswith_def List.map_filter_simps instruction_z_short_def plain_ifunc_def)
  have e: "\<forall>g\<in>set []. pattern_match init_machine g [0, 0, 0, 0] = Inr None"
    by simp
  have l: "int (length [0::byte, 0, 0, 0]) = isize init_machine"
    by (simp add: init_machine_def)
  have d: "doc instruction_z_short = Some ''short : 0000000 00000000 00000000 11111111 : short''"
    by (simp add: instruction_z_short_def plain_ifunc_def)
  have x: "index (split_on CHR '':'' (replace ''short : 0000000 00000000 00000000 11111111 : short''
              CHR '' '' [])) 1 = Inr ''0000000000000000000000011111111''"
    by (simp add: replace_def index_def)
  have n: "int (length ''0000000000000000000000011111111'') \<noteq> isize init_machine * 8"
    by (simp add: init_machine_def)
  show ?thesis
    by (rule template_length_checked_by_decode [OF c e l d x n])
qed

text \<open>
  Claim C8 as stated fails for a catalog without entries (the base class itself has none):
  the length check sits in \<open>_pattern_match\<close>, which is never called, and \<open>decode\<close> raises
  "Unable to decode bytes as instruction" (the spec's \<open>UnknownInstruction\<close>).
\<close>

theorem wrong_length_empty_catalog:
  "int (length ([] :: byte list)) \<noteq> isize init_machine
   \<and> decode (IsaDefinition_init []) init_machine [] = Inl (ISAError UnableToDecode)"
  by (simp add: init_machine_def decode_def IsaDefinition_init_def init_ifuncs_def dir_names_def
      List.map_filter_simps)

text \<open>
  Claim C8, amended. For every catalog with at least one entry, a buffer whose length
  differs from \<open>isize\<close> makes \<open>decode\<close> raise the \<open>ISAError\<close> "instruction ... is n bytes not m"
  (the spec's \<open>InstructionWidthMismatch\<close>), whatever the templates are: no template is
  extracted and no bit is matched before.
\<close>

theorem wrong_length_rejected_first:
  assumes "ifuncs i \<noteq> []" and "int (length instr) \<noteq> isize m"
  shows "decode i m instr = Inl (ISAError InstructionWrongBytes)"
proof -
  from assms(1) obtain func funcs where "ifuncs i = func # funcs"
    by (cases "ifuncs i") auto
  then show ?thesis
    using assms(2) by (simp add: decode_def pattern_match_def)
qed

theorem wrong_length_rejected_first_witness:
  "decode (Mips_isa isa_helpers) Mips_machine [0x21, 0x08, 0x00] = Inl (ISAError InstructionWrongBytes)"
proof -
  have c: "ifuncs (Mips_isa isa_helpers) \<noteq> []"
    by (simp add: Mips_isa_def IsaDefinition_init_def Mips_ifuncs)
  have l: "int (length [0x21 :: byte, 0x08, 0x00]) \<noteq> isize Mips_machine"
    by (simp add: Mips_machine_cfg)
  show ?thesis
    by (rule wrong_length_rejected_first [OF c l])
qed



theorem decode_priority_is_name_order_witness:
  "ifuncs (IsaDefinition_init [instruction_b_any, instruction_a_zero])
     = [] @ instruction_a_zero # [instruction_b_any]
   \<and> (\<exists>flds. pattern_match init_machine instruction_a_zero [0, 0, 0, 0] = Inr (Some flds)
        \<and> decode (IsaDefinition_init [instruction_b_any, instruction_a_zero]) init_machine [0, 0, 0, 0]
            = Inr (instruction_a_zero, flds))"
proof -
  have c: "ifuncs (IsaDefinition_init [instruction_b_any, instruction_a_zero])
     = [] @ instruction_a_zero # [instruction_b_any]"
    by (simp add: IsaDefinition_init_def catalog_b_a)
  from pattern_match_a_zero obtain flds where
    p: "pattern_match init_machine instruction_a_zero [0, 0, 0, 0] = Inr (Some flds)"
    by blast
  have e: "\<forall>g\<in>set []. pattern_match init_machine g [0, 0, 0, 0] = Inr None"
    by simp
  have "decode (IsaDefinition_init [instruction_b_any, instruction_a_zero]) init_machine [0, 0, 0, 0]
            = Inr (instruction_a_zero, flds)"
    by (rule decode_priority_is_name_order [of "[instruction_b_any, instruction_a_zero]",
          THEN conjunct2, THEN conjunct2, rule_format,
          of "[]" instruction_a_zero "[instruction_b_any]" init_machine "[0, 0, 0, 0]" flds])
       (intro conjI c e p)
  with c p show ?thesis
    by (intro conjI exI [of _ flds])
qed

section \<open>Properties of the disassembly formatter\<close>

lemma format_operand_known:
  "known_operand ifield op \<Longrightarrow> format_operand ifield (operand_token op) = Inr (spec_render op)"
  by (cases op)
     (auto simp add: known_operand_def operand_token_def spec_render_def format_operand_def
        operand_field_def startswith_def)

lemma format_operand_unknown:
  "\<not> startswith part ''$'' \<Longrightarrow> \<not> startswith part ''@'' \<Longrightarrow> \<not> startswith part ''!''
     \<Longrightarrow> format_operand ifield part = Inl (ISAError UnknownOperandSpecifier)"
  by (simp add: format_operand_def)

lemma format_operands_known:
  "\<forall>op\<in>set ops. known_operand ifield op \<Longrightarrow>
     format_operands ifield (map operand_token ops) = Inr (map spec_render ops)"
  by (induction ops) (simp_all add: format_operand_known)

lemma format_operands_unknown:
  "\<forall>op\<in>set ops. known_operand ifield op \<Longrightarrow>
   \<not> startswith bad ''$'' \<Longrightarrow> \<not> startswith bad ''@'' \<Longrightarrow> \<not> startswith bad ''!'' \<Longrightarrow>
     format_operands ifield (map operand_token ops @ bad # rest) = Inl (ISAError UnknownOperandSpecifier)"
  by (induction ops) (simp_all add: format_operand_known format_operand_unknown)

lemma split_ws_addi: "split_ws ''addi $t $s !i'' = [''addi'', ''$t'', ''$s'', ''!i'']"
  by (simp add: split_ws_def is_space_def)

lemma extract_asm_addi: "extract_asm (instruction_addi h) = Inr ''addi $t $s !i''"
  by (simp add: extract_asm_def instruction_addi_def index_def replace_def strip_def
      split_ws_def is_space_def)

lemma str_int_8: "str_int 8 = ''8''"
  by (simp add: str_int_def dec_digits.simps digit_char_def)

lemma hex_4: "hex 4 = ''0x4''"
  by (simp add: hex_def hex_digits.simps digit_char_def)

lemma format_asm_addi:
  "ifield CHR ''s'' = Some 8 \<Longrightarrow> ifield CHR ''t'' = Some 8 \<Longrightarrow> ifield CHR ''i'' = Some 4 \<Longrightarrow>
     format_asm ''addi $t $s !i'' ifield = Inr ''addi $8 $8 0x4''"
  by (simp add: format_asm_def split_ws_addi format_operand_def operand_field_def startswith_def
      str_int_8 hex_4)

text \<open>
  Claim C6. For every decoded instruction, \<open>istring\<close> (by \<open>_format_asm\<close> on the template
  that \<open>_extract_asm\<close> takes from the docstring) emits the mnemonic (the first token)
  followed by one token per operand, joined by single spaces: a token \<open>$c\<close> renders as \<open>$\<close>
  and the decimal raw value of field \<open>c\<close>, a token \<open>@c\<close> as the hexadecimal of the raw value
  shifted left by 2, a token \<open>!c\<close> as the hexadecimal of the raw value. When the operands
  before it are such tokens, an operand token that starts with none of the three sigils
  makes it raise the \<open>ISAError\<close> "Unknown operand specifier" (the spec's
  \<open>UnknownOperandSigil\<close>). The instruction decoded from the bytes \<open>0x21 0x08 0x00 0x04\<close> has
  the template \<open>addi $t $s !i\<close> and renders as \<open>addi $8 $8 0x4\<close>.
\<close>

theorem istring_renders_operands:
  "(\<forall>func flds asm_pattern mnemonic ops.
      extract_asm func = Inr asm_pattern
      \<and> split_ws asm_pattern = mnemonic # map operand_token ops
      \<and> (\<forall>op\<in>set ops. known_operand flds op)
      \<longrightarrow> istring (func, flds) = Inr (join '' '' (mnemonic # map spec_render ops))
          \<and> format_asm asm_pattern flds = Inr (join '' '' (mnemonic # map spec_render ops)))
   \<and> (\<forall>func flds asm_pattern mnemonic ops bad rest.
      extract_asm func = Inr asm_pattern
      \<and> split_ws asm_pattern = mnemonic # map operand_token ops @ bad # rest
      \<and> (\<forall>op\<in>set ops. known_operand flds op)
      \<and> \<not> startswith bad ''$'' \<and> \<not> startswith bad ''@'' \<and> \<not> startswith bad ''!''
      \<longrightarrow> istring (func, flds) = Inl (ISAError UnknownOperandSpecifier)
          \<and> format_asm asm_pattern flds = Inl (ISAError UnknownOperandSpecifier))
   \<and> (\<forall>h. \<exists>flds.
        decode (Mips_isa h) Mips_machine [0x21, 0x08, 0x00, 0x04] = Inr (instruction_addi h, flds)
        \<and> extract_asm (instruction_addi h) = Inr ''addi $t $s !i''
        \<and> format_asm ''addi $t $s !i'' flds = Inr ''addi $8 $8 0x4''
        \<and> istring (instruction_addi h, flds) = Inr ''addi $8 $8 0x4'')"
proof (intro conjI allI impI)
  fix func flds asm_pattern mnemonic ops
  assume a: "extract_asm func = Inr asm_pattern
      \<and> split_ws asm_pattern = mnemonic # map operand_token ops
      \<and> (\<forall>op\<in>set ops. known_operand flds op)"
  then show f: "format_asm asm_pattern flds = Inr (join '' '' (mnemonic # map spec_render ops))"
    by (simp add: format_asm_def format_operands_known)
  with a show "istring (func, flds) = Inr (join '' '' (mnemonic # map spec_render ops))"
    by (simp add: istring_def)
next
  fix func flds asm_pattern mnemonic ops bad rest
  assume a: "extract_asm func = Inr asm_pattern
      \<and> split_ws asm_pattern = mnemonic # map operand_token ops @ bad # rest
      \<and> (\<forall>op\<in>set ops. known_operand flds op)
      \<and> \<not> startswith bad ''$'' \<and> \<not> startswith bad ''@'' \<and> \<not> startswith bad ''!''"
  then show f: "format_asm asm_pattern flds = Inl (ISAError UnknownOperandSpecifier)"
    by (simp add: format_asm_def format_operands_unknown)
  with a show "istring (func, flds) = Inl (ISAError UnknownOperandSpecifier)"
    by (simp add: istring_def)
next
  fix h
  from decode_scenario [of h] obtain flds where
    d: "decode (Mips_isa h) Mips_machine [0x21, 0x08, 0x00, 0x04] = Inr (instruction_addi h, flds)"
    and f: "flds CHR ''s'' = Some 8" "flds CHR ''t'' = Some 8" "flds CHR ''i'' = Some 4"
    by blast
  have a: "format_asm ''addi $t $s !i'' flds = Inr ''addi $8 $8 0x4''"
    using f by (rule format_asm_addi)
  then have "istring (instruction_addi h, flds) = Inr ''addi $8 $8 0x4''"
    by (simp add: istring_def extract_asm_addi)
  with d a show "\<exists>flds.
        decode (Mips_isa h) Mips_machine [0x21, 0x08, 0x00, 0x04] = Inr (instruction_addi h, flds)
        \<and> extract_asm (instruction_addi h) = Inr ''addi $t $s !i''
        \<and> format_asm ''addi $t $s !i'' flds = Inr ''addi $8 $8 0x4''
        \<and> istring (instruction_addi h, flds) = Inr ''addi $8 $8 0x4''"
    by (simp add: extract_asm_addi)
qed

lemma split_ws_j: "split_ws ''j @a'' = ''j'' # map operand_token [(CHR ''@'', CHR ''a'', 3)]"
  by (simp add: split_ws_def is_space_def operand_token_def)

lemma extract_asm_j: "extract_asm (instruction_j h) = Inr ''j @a''"
  by (simp add: extract_asm_def instruction_j_def index_def replace_def strip_def
      split_ws_def is_space_def)

lemma extract_asm_bad_sigil: "extract_asm instruction_bad_sigil = Inr ''bad %x''"
  by (simp add: extract_asm_def instruction_bad_sigil_def index_def replace_def strip_def
      split_ws_def is_space_def)

lemma split_ws_bad_sigil:
  "split_ws ''bad %x'' = ''bad'' # map operand_token [] @ ''%x'' # []"
  by (simp add: split_ws_def is_space_def)

theorem istring_renders_operands_witness:
  "istring (instruction_j isa_helpers, [CHR ''a'' \<mapsto> 3]) = Inr ''j 0xc''
   \<and> istring (instruction_bad_sigil, [CHR ''x'' \<mapsto> 8]) = Inl (ISAError UnknownOperandSpecifier)"
proof -
  have k1: "\<forall>op\<in>set [(CHR ''@'', CHR ''a'', 3)]. known_operand [CHR ''a'' \<mapsto> 3] op"
    by (simp add: known_operand_def)
  have "istring (instruction_j isa_helpers, [CHR ''a'' \<mapsto> 3])
          = Inr (join '' '' (''j'' # map spec_render [(CHR ''@'', CHR ''a'', 3)]))"
    by (rule istring_renders_operands [THEN conjunct1, rule_format, THEN conjunct1,
          of "instruction_j isa_helpers" "''j @a''" "''j''" "[(CHR ''@'', CHR ''a'', 3)]"
             "[CHR ''a'' \<mapsto> 3]"])
       (intro conjI extract_asm_j split_ws_j k1)
  moreover have "hex 12 = ''0xc''"
    by (simp add: hex_def hex_digits.simps digit_char_def)
  ultimately have a: "istring (instruction_j isa_helpers, [CHR ''a'' \<mapsto> 3]) = Inr ''j 0xc''"
    by (simp add: spec_render_def)
  have k2: "\<forall>op\<in>set []. known_operand [CHR ''x'' \<mapsto> 8] op"
    by simp
  have n: "\<not> startswith ''%x'' ''$''" "\<not> startswith ''%x'' ''@''" "\<not> startswith ''%x'' ''!''"
    by (simp_all add: startswith_def)
  have b: "istring (instruction_bad_sigil, [CHR ''x'' \<mapsto> 8]) = Inl (ISAError UnknownOperandSpecifier)"
    by (rule istring_renders_operands [THEN conjunct2, THEN conjunct1, rule_format, THEN conjunct1,
          of instruction_bad_sigil "''bad %x''" "''bad''" "[]" "''%x''" "[]" "[CHR ''x'' \<mapsto> 8]"])
       (intro conjI extract_asm_bad_sigil split_ws_bad_sigil k2 n)
  from a b show ?thesis
    by simp
qed

section \<open>Properties of the dispatch loop\<close>

lemma replicate_4_bytes: "replicate 4 (0::byte) = [0, 0, 0, 0]"
  by (simp add: eval_nat_numeral)

lemma finalize_IsaDefinition_init: "finalize_execution (IsaDefinition_init decls) = None"
  by (simp add: IsaDefinition_init_def)

lemma small_machine_built:
  "(case make_register ''PC'' 32 init_machine of Inl e \<Rightarrow> Inl e | Inr m \<Rightarrow> mem_map 0 4 m)
     = Inr small_machine"
  by (simp add: make_register_def setattr_raises_def mem_map_def small_machine_def
      init_machine_def replicate_4_bytes)

lemma small_machine_PC: "attrs small_machine ''PC'' = Some (IntV 0)"
  by (simp add: small_machine_def)

lemma fetch_small_machine: "fetch small_machine = Inr [0, 0, 0, 0]"
  by (simp add: fetch_def small_machine_def mem_read_def slice_def)

lemma decode_bad_sigil:
  "\<exists>flds. decode (IsaDefinition_init [instruction_bad_sigil]) small_machine [0, 0, 0, 0]
     = Inr (instruction_bad_sigil, flds)"
  by (simp add: decode_def IsaDefinition_init_def init_ifuncs_def dir_names_def
      getattr_method_def startswith_def List.map_filter_simps instruction_bad_sigil_def
      pattern_match_def extract_pattern_def replace_def index_def from_bytes_def
      small_machine_def list_of_bits_zero)

lemma istring_bad_sigil:
  "istring (instruction_bad_sigil, flds) = Inl (ISAError UnknownOperandSpecifier)"
  by (simp add: istring_def extract_asm_def instruction_bad_sigil_def index_def replace_def
      strip_def split_ws_def is_space_def format_asm_def format_operand_def startswith_def)

text \<open>
  Claim C4 as stated fails. An instruction whose body sets the program counter to 42 and
  whose disassembly template has an unknown sigil is fetched, decoded and executed; then
  \<open>istring\<close> raises. The call to \<open>step\<close> fails, and the program counter, 0 before the call,
  is 42 after it.
\<close>

theorem failed_step_keeps_mutation:
  "fst (step (IsaDefinition_init [instruction_bad_sigil]) small_machine)
     = Inl (ISAError UnknownOperandSpecifier)
   \<and> attrs (snd (step (IsaDefinition_init [instruction_bad_sigil]) small_machine)) ''PC''
     = Some (IntV 42)
   \<and> attrs small_machine ''PC'' = Some (IntV 0)"
proof -
  from decode_bad_sigil obtain flds where
    d: "decode (IsaDefinition_init [instruction_bad_sigil]) small_machine [0, 0, 0, 0]
     = Inr (instruction_bad_sigil, flds)"
    by blast
  have e: "execute (instruction_bad_sigil, flds) small_machine = (None, set_PC 42 small_machine)"
    by (simp add: execute_def instruction_bad_sigil_def)
  have "step (IsaDefinition_init [instruction_bad_sigil]) small_machine
          = (Inl (ISAError UnknownOperandSpecifier), set_PC 42 small_machine)"
    by (simp add: step_def fetch_small_machine d e istring_bad_sigil finalize_IsaDefinition_init)
  then show ?thesis
    by (simp add: set_PC_def small_machine_PC)
qed

text \<open>
  Claim C4, amended. A \<open>step\<close> that fails in \<open>fetch\<close> or in \<open>decode\<close> fails with that
  exception and leaves the whole machine, every register and every memory byte, as it was
  before the call. (A failure in \<open>execute\<close>, in the finalize hook or in the disassembly
  leaves what was written before it.)
\<close>

theorem step_failing_before_execute:
  "(fetch m = Inl e \<longrightarrow> step i m = (Inl e, m))
   \<and> (fetch m = Inr instr \<and> decode i m instr = Inl e \<longrightarrow> step i m = (Inl e, m))"
  by (simp add: step_def)

theorem step_failing_before_execute_witness:
  "step (Mips_isa isa_helpers) Mips_machine = (Inl TypeError, Mips_machine)
   \<and> step (IsaDefinition_init []) small_machine = (Inl (ISAError UnableToDecode), small_machine)"
proof -
  have f: "fetch Mips_machine = Inl TypeError"
    by (simp add: fetch_def mem_read_def Mips_machine_def)
  have a: "step (Mips_isa isa_helpers) Mips_machine = (Inl TypeError, Mips_machine)"
    using step_failing_before_execute [of Mips_machine TypeError "Mips_isa isa_helpers"] f
    by simp
  have d: "decode (IsaDefinition_init []) small_machine [0, 0, 0, 0] = Inl (ISAError UnableToDecode)"
    by (simp add: decode_def IsaDefinition_init_def init_ifuncs_def dir_names_def
        List.map_filter_simps)
  have b: "step (IsaDefinition_init []) small_machine = (Inl (ISAError UnableToDecode), small_machine)"
    using step_failing_before_execute [of small_machine "ISAError UnableToDecode" "IsaDefinition_init []" "[0, 0, 0, 0]"]
      fetch_small_machine d
    by simp
  from a b show ?thesis
    by simp
qed

subsection \<open>The finalize hook of the MIPS machine\<close>

lemma set_R_None:
  "set_R k v m = (None, m1) \<Longrightarrow>
     \<exists>d. attrs m ''R'' = Some (DictV d) \<and> m1 = m\<lparr>attrs := (attrs m)(''R'' \<mapsto> DictV (d(k \<mapsto> v)))\<rparr>"
  by (auto simp add: set_R_def split: option.splits pyvalue.splits)

lemma add_body_None:
  "add_body flds m = (None, m1) \<Longrightarrow> attrs m1 ''PC'' = attrs m ''PC''"
  by (auto simp add: add_body_def split: sum.splits dest!: set_R_None)

lemma addi_body_None:
  "addi_body h flds m = (None, m1) \<Longrightarrow> attrs m1 ''PC'' = attrs m ''PC''"
  by (auto simp add: addi_body_def split: sum.splits dest!: set_R_None)

lemma j_body_None:
  "j_body h flds m = (None, m1) \<Longrightarrow>
     \<exists>pc upper a. attrs m ''PC'' = Some (IntV pc) \<and> h_bit_select h (pc + 4) 31 28 False = Inr upper
        \<and> flds CHR ''a'' = Some a \<and> attrs m1 ''PC'' = Some (IntV (upper + push_bit 2 a))"
  by (auto simp add: j_body_def get_int_def get_field_def set_PC_def
      split: sum.splits option.splits pyvalue.splits)

lemma Mips_finalize_None:
  assumes "Mips_finalize_execution (func, flds) m1 = (None, m2)"
  shows "\<exists>r. attrs m2 ''R'' = Some (DictV r) \<and> r 0 = Some 0
     \<and> (fname func \<notin> set jumps \<longrightarrow>
          (\<exists>pc. attrs m1 ''PC'' = Some (IntV pc) \<and> attrs m2 ''PC'' = Some (IntV (pc + 4))))
     \<and> (fname func \<in> set jumps \<longrightarrow> attrs m2 ''PC'' = attrs m1 ''PC'')"
proof (cases "set_R 0 0 m1")
  case (Pair eo m')
  with assms have eo: "eo = None"
    by (cases eo) (simp_all add: Mips_finalize_execution_def)
  from set_R_None [of 0 0 m1 m'] Pair eo obtain d where
    d: "attrs m1 ''R'' = Some (DictV d)"
    and m': "m' = m1\<lparr>attrs := (attrs m1)(''R'' \<mapsto> DictV (d(0 \<mapsto> 0)))\<rparr>"
    by auto
  show ?thesis
  proof (cases "fname func \<in> set jumps")
    case True
    with assms Pair eo have "m2 = m'"
      by (simp add: Mips_finalize_execution_def)
    with m' True show ?thesis
      by simp
  next
    case False
    with assms Pair eo obtain pc where "get_int m' ''PC'' = Inr pc" "m2 = set_PC (pc + 4) m'"
      by (auto simp add: Mips_finalize_execution_def split: sum.splits)
    with m' False show ?thesis
      by (auto simp add: get_int_def set_PC_def split: option.splits pyvalue.splits)
  qed
qed

lemma Mips_catalog: "ifuncs (Mips_isa h) = [instruction_add, instruction_addi h, instruction_j h, instruction_nop]"
  by (simp add: Mips_isa_def IsaDefinition_init_def Mips_ifuncs)

lemma Mips_finalize: "finalize_execution (Mips_isa h) = Some Mips_finalize_execution"
  by (simp add: Mips_isa_def)

lemma Mips_pattern_isize:
  assumes "func \<in> set (ifuncs (Mips_isa h))" "extract_pattern m func = Inr pattern"
  shows "isize m = 4"
proof -
  from assms(1) consider "func = instruction_add" | "func = instruction_addi h"
    | "func = instruction_j h" | "func = instruction_nop"
    by (auto simp add: Mips_catalog)
  then show ?thesis
  proof cases
    case 1
    with assms(2) show ?thesis
      by (simp add: extract_pattern_def instruction_add_def replace_def index_def split: if_splits)
  next
    case 2
    with assms(2) show ?thesis
      by (simp add: extract_pattern_def instruction_addi_def replace_def index_def split: if_splits)
  next
    case 3
    with assms(2) show ?thesis
      by (simp add: extract_pattern_def instruction_j_def replace_def index_def split: if_splits)
  next
    case 4
    with assms(2) show ?thesis
      by (simp add: extract_pattern_def instruction_nop_def replace_def index_def split: if_splits)
  qed
qed

lemma Mips_execute_None:
  assumes "func \<in> set (ifuncs (Mips_isa h))" "execute (func, flds) m = (None, m1)"
  shows "(fname func \<notin> set jumps \<longrightarrow> attrs m1 ''PC'' = attrs m ''PC'')
     \<and> (fname func \<in> set jumps \<longrightarrow>
          (\<exists>pc upper a. attrs m ''PC'' = Some (IntV pc)
             \<and> h_bit_select h (pc + 4) 31 28 False = Inr upper
             \<and> flds CHR ''a'' = Some a \<and> attrs m1 ''PC'' = Some (IntV (upper + push_bit 2 a))))"
proof -
  from assms(1) consider "func = instruction_add" | "func = instruction_addi h"
    | "func = instruction_j h" | "func = instruction_nop"
    by (auto simp add: Mips_catalog)
  then show ?thesis
  proof cases
    case 1
    with assms(2) show ?thesis
      by (auto simp add: execute_def instruction_add_def jumps_def dest: add_body_None)
  next
    case 2
    with assms(2) show ?thesis
      by (auto simp add: execute_def instruction_addi_def jumps_def dest: addi_body_None)
  next
    case 3
    with assms(2) have "j_body h flds m = (None, m1)"
      by (simp add: execute_def instruction_j_def)
    from j_body_None [OF this] 3 show ?thesis
      by (simp add: instruction_j_def jumps_def)
  next
    case 4
    with assms(2) show ?thesis
      by (auto simp add: execute_def instruction_nop_def jumps_def)
  qed
qed

lemma fetch_PC: "fetch m = Inr instr \<Longrightarrow> \<exists>pc. attrs m ''PC'' = Some (IntV pc)"
  by (auto simp add: fetch_def split: option.splits pyvalue.splits)

text \<open>
  Claim C5. After every \<open>step\<close> of the MIPS machine that returns, register 0 of the file
  \<open>R\<close> is 0 (\<open>finalize_execution\<close> writes it last); if the executed instruction is not in
  \<open>jumps\<close>, the program counter is its value before the step plus the instruction width
  \<open>isize\<close>; if it is in \<open>jumps\<close>, the program counter is exactly the value its body
  assigned, for \<open>j\<close> the selected upper bits of \<open>PC + 4\<close> plus the field \<open>a\<close> shifted left by 2,
  with no increment applied.
\<close>

theorem Mips_step_finalize:
  assumes "step (Mips_isa h) m = (Inr s, m')"
  shows "\<exists>instr func flds m1 pc r.
     fetch m = Inr instr \<and> decode (Mips_isa h) m instr = Inr (func, flds)
     \<and> execute (func, flds) m = (None, m1)
     \<and> attrs m ''PC'' = Some (IntV pc)
     \<and> attrs m' ''R'' = Some (DictV r) \<and> r 0 = Some 0
     \<and> (fname func \<notin> set jumps \<longrightarrow> attrs m' ''PC'' = Some (IntV (pc + isize m)))
     \<and> (fname func \<in> set jumps \<longrightarrow>
          attrs m' ''PC'' = attrs m1 ''PC''
          \<and> (\<exists>upper a. h_bit_select h (pc + 4) 31 28 False = Inr upper \<and> flds CHR ''a'' = Some a
                \<and> attrs m' ''PC'' = Some (IntV (upper + push_bit 2 a))))"
proof -
  from assms obtain instr where f: "fetch m = Inr instr"
    by (cases "fetch m") (simp_all add: step_def)
  from assms f obtain func flds where d: "decode (Mips_isa h) m instr = Inr (func, flds)"
    by (cases "decode (Mips_isa h) m instr") (auto simp add: step_def)
  obtain eo m1 where e: "execute (func, flds) m = (eo, m1)"
    by (cases "execute (func, flds) m")
  with assms f d have eo: "eo = None"
    by (cases eo) (simp_all add: step_def)
  obtain fo m2 where z: "Mips_finalize_execution (func, flds) m1 = (fo, m2)"
    by (cases "Mips_finalize_execution (func, flds) m1")
  with assms f d e eo have fo: "fo = None" and m2: "m2 = m'"
    by (cases fo; simp add: step_def Mips_finalize)+
  from d have mem: "func \<in> set (ifuncs (Mips_isa h))"
    and pm: "pattern_match m func instr = Inr (Some flds)"
    by (simp_all add: decode_def decode_loop_Inr)
  from pattern_match_Some [OF pm] obtain pattern where "extract_pattern m func = Inr pattern"
    by blast
  with mem have w: "isize m = 4"
    by (rule Mips_pattern_isize)
  from fetch_PC [OF f] obtain pc where pc: "attrs m ''PC'' = Some (IntV pc)"
    by blast
  from e eo have e': "execute (func, flds) m = (None, m1)"
    by simp
  note ex = Mips_execute_None [OF mem e']
  from z fo m2 have "Mips_finalize_execution (func, flds) m1 = (None, m')"
    by simp
  from Mips_finalize_None [OF this] obtain r where
    r: "attrs m' ''R'' = Some (DictV r)" "r 0 = Some 0"
    and nj: "fname func \<notin> set jumps \<longrightarrow>
          (\<exists>q. attrs m1 ''PC'' = Some (IntV q) \<and> attrs m' ''PC'' = Some (IntV (q + 4)))"
    and jj: "fname func \<in> set jumps \<longrightarrow> attrs m' ''PC'' = attrs m1 ''PC''"
    by blast
  have a: "fname func \<notin> set jumps \<longrightarrow> attrs m' ''PC'' = Some (IntV (pc + isize m))"
    using ex nj pc w by auto
  have b: "fname func \<in> set jumps \<longrightarrow>
          attrs m' ''PC'' = attrs m1 ''PC''
          \<and> (\<exists>upper a. h_bit_select h (pc + 4) 31 28 False = Inr upper \<and> flds CHR ''a'' = Some a
                \<and> attrs m' ''PC'' = Some (IntV (upper + push_bit 2 a)))"
    using ex jj pc by auto
  from f d e' pc r a b show ?thesis
    by blast
qed


lemma scenario_machine_cfg:
  "isize scenario_machine = 4" "endian scenario_machine = ''big''"
  "attrs scenario_machine ''PC'' = Some (IntV 0)"
  "attrs scenario_machine ''R'' = Some (DictV (range_dict 32 (\<lambda>x. 0)))"
  "mem scenario_machine = Some [0x21, 0x08, 0x00, 0x04]"
  by (simp_all add: scenario_machine_def Mips_machine_def)

lemma fetch_scenario: "fetch scenario_machine = Inr [0x21, 0x08, 0x00, 0x04]"
  by (simp add: fetch_def mem_read_def slice_def scenario_machine_cfg)

lemma decode_scenario_machine:
  "\<exists>flds. decode (Mips_isa h) scenario_machine [0x21, 0x08, 0x00, 0x04] = Inr (instruction_addi h, flds)
     \<and> flds CHR ''s'' = Some 8 \<and> flds CHR ''t'' = Some 8 \<and> flds CHR ''i'' = Some 4"
  by (simp add: decode_def Mips_catalog pattern_match_def
      scenario_machine_cfg pattern_add pattern_addi from_bytes_scenario list_of_bits_scenario)

lemma sign_extend_4_16: "sign_extend 4 16 = Inr 4"
  by (simp add: sign_extend_def mask_n_def lshift_def)

lemma execute_scenario:
  "flds CHR ''s'' = Some 8 \<Longrightarrow> flds CHR ''t'' = Some 8 \<Longrightarrow> flds CHR ''i'' = Some 4 \<Longrightarrow>
     execute (instruction_addi isa_helpers, flds) scenario_machine
       = (None, scenario_machine\<lparr>attrs := (attrs scenario_machine)
            (''R'' \<mapsto> DictV ((range_dict 32 (\<lambda>x. 0))(8 \<mapsto> 4)))\<rparr>)"
  by (simp add: execute_def instruction_addi_def addi_body_def get_attr_def get_field_def
      getitem_def set_R_def scenario_machine_cfg range_dict_def isa_helpers_def sign_extend_4_16)

lemma step_scenario:
  "\<exists>m'. step (Mips_isa isa_helpers) scenario_machine = (Inr ''addi $8 $8 0x4'', m')"
proof -
  from decode_scenario_machine [of isa_helpers] obtain flds where
    d: "decode (Mips_isa isa_helpers) scenario_machine [0x21, 0x08, 0x00, 0x04]
          = Inr (instruction_addi isa_helpers, flds)"
    and f: "flds CHR ''s'' = Some 8" "flds CHR ''t'' = Some 8" "flds CHR ''i'' = Some 4"
    by blast
  have i: "istring (instruction_addi isa_helpers, flds) = Inr ''addi $8 $8 0x4''"
    using format_asm_addi [OF f] by (simp add: istring_def extract_asm_addi)
  have n: "fname (instruction_addi isa_helpers) \<notin> set jumps"
    by (simp add: instruction_addi_def jumps_def)
  show ?thesis
    using n by (simp add: step_def fetch_scenario d execute_scenario [OF f] Mips_finalize i
        Mips_finalize_execution_def set_R_def get_int_def scenario_machine_cfg)
qed


lemma jump_machine_cfg:
  "isize jump_machine = 4" "endian jump_machine = ''big''"
  "attrs jump_machine ''PC'' = Some (IntV 0)"
  "attrs jump_machine ''R'' = Some (DictV (range_dict 32 (\<lambda>x. 0)))"
  "mem jump_machine = Some [0x08, 0x00, 0x00, 0x03]"
  by (simp_all add: jump_machine_def Mips_machine_def)

lemma fetch_jump: "fetch jump_machine = Inr [0x08, 0x00, 0x00, 0x03]"
  by (simp add: fetch_def mem_read_def slice_def jump_machine_cfg)

lemma list_of_bits_jump:
  "list_of_bits 134217731 32 =
     [0,0,0,0,1,0,0,0, 0,0,0,0,0,0,0,0, 0,0,0,0,0,0,0,0, 0,0,0,0,0,0,1,1]"
  by code_simp

lemma decode_jump:
  "\<exists>flds. decode (Mips_isa h) jump_machine [0x08, 0x00, 0x00, 0x03] = Inr (instruction_j h, flds)
     \<and> flds CHR ''a'' = Some 3"
  by (simp add: decode_def Mips_catalog pattern_match_def jump_machine_cfg
      pattern_add pattern_addi pattern_j from_bytes_def list_of_bits_jump)

lemma bit_select_4: "bit_select 4 31 28 False = Inr 0"
  by (simp add: bit_select_def mask_n_def lshift_def rshift_def)

lemma step_jump:
  "\<exists>m'. step (Mips_isa isa_helpers) jump_machine = (Inr ''j 0xc'', m')"
proof -
  from decode_jump [of isa_helpers] obtain flds where
    d: "decode (Mips_isa isa_helpers) jump_machine [0x08, 0x00, 0x00, 0x03]
          = Inr (instruction_j isa_helpers, flds)"
    and f: "flds CHR ''a'' = Some 3"
    by blast
  have h12: "hex 12 = ''0xc''"
    by (simp add: hex_def hex_digits.simps digit_char_def)
  have i: "istring (instruction_j isa_helpers, flds) = Inr ''j 0xc''"
    using f by (simp add: istring_def extract_asm_j format_asm_def split_ws_def is_space_def
        format_operand_def operand_field_def startswith_def h12)
  have e: "execute (instruction_j isa_helpers, flds) jump_machine = (None, set_PC 12 jump_machine)"
    using f by (simp add: execute_def instruction_j_def j_body_def get_int_def get_field_def
        jump_machine_cfg isa_helpers_def bit_select_4)
  have n: "fname (instruction_j isa_helpers) \<in> set jumps"
    by (simp add: instruction_j_def jumps_def)
  show ?thesis
    using n by (simp add: step_def fetch_jump d e Mips_finalize i
        Mips_finalize_execution_def set_R_def set_PC_def jump_machine_cfg)
qed

theorem Mips_step_finalize_witness:
  "(\<exists>m' r. step (Mips_isa isa_helpers) scenario_machine = (Inr ''addi $8 $8 0x4'', m')
      \<and> attrs m' ''PC'' = Some (IntV 4) \<and> attrs m' ''R'' = Some (DictV r) \<and> r 0 = Some 0)
   \<and> (\<exists>m' r. step (Mips_isa isa_helpers) jump_machine = (Inr ''j 0xc'', m')
      \<and> attrs m' ''PC'' = Some (IntV 12) \<and> attrs m' ''R'' = Some (DictV r) \<and> r 0 = Some 0)"
proof (rule conjI)
  from step_scenario obtain m' where
    st: "step (Mips_isa isa_helpers) scenario_machine = (Inr ''addi $8 $8 0x4'', m')"
    by blast
  from Mips_step_finalize [OF st] obtain instr func flds pc r where
    f: "fetch scenario_machine = Inr instr"
    and d: "decode (Mips_isa isa_helpers) scenario_machine instr = Inr (func, flds)"
    and pc: "attrs scenario_machine ''PC'' = Some (IntV pc)"
    and r: "attrs m' ''R'' = Some (DictV r)" "r 0 = Some 0"
    and nj: "fname func \<notin> set jumps \<longrightarrow> attrs m' ''PC'' = Some (IntV (pc + isize scenario_machine))"
    by blast
  from f have instr: "instr = [0x21, 0x08, 0x00, 0x04]"
    by (simp add: fetch_scenario)
  from d instr decode_scenario_machine [of isa_helpers] have "func = instruction_addi isa_helpers"
    by auto
  then have "fname func \<notin> set jumps"
    by (simp add: instruction_addi_def jumps_def)
  with nj pc have "attrs m' ''PC'' = Some (IntV 4)"
    by (simp add: scenario_machine_cfg)
  with st r show "\<exists>m' r. step (Mips_isa isa_helpers) scenario_machine = (Inr ''addi $8 $8 0x4'', m')
      \<and> attrs m' ''PC'' = Some (IntV 4) \<and> attrs m' ''R'' = Some (DictV r) \<and> r 0 = Some 0"
    by blast
next
  from step_jump obtain m' where
    st: "step (Mips_isa isa_helpers) jump_machine = (Inr ''j 0xc'', m')"
    by blast
  from Mips_step_finalize [OF st] obtain instr func flds pc r where
    f: "fetch jump_machine = Inr instr"
    and d: "decode (Mips_isa isa_helpers) jump_machine instr = Inr (func, flds)"
    and pc: "attrs jump_machine ''PC'' = Some (IntV pc)"
    and r: "attrs m' ''R'' = Some (DictV r)" "r 0 = Some 0"
    and jj: "fname func \<in> set jumps \<longrightarrow>
          (\<exists>upper a. h_bit_select isa_helpers (pc + 4) 31 28 False = Inr upper
                \<and> flds CHR ''a'' = Some a
                \<and> attrs m' ''PC'' = Some (IntV (upper + push_bit 2 a)))"
    by blast
  from f have instr: "instr = [0x08, 0x00, 0x00, 0x03]"
    by (simp add: fetch_jump)
  from d instr decode_jump [of isa_helpers] have fn: "func = instruction_j isa_helpers"
    and a: "flds CHR ''a'' = Some 3"
    by auto
  from fn have "fname func \<in> set jumps"
    by (simp add: instruction_j_def jumps_def)
  with jj pc a have "attrs m' ''PC'' = Some (IntV 12)"
    by (auto simp add: jump_machine_cfg isa_helpers_def bit_select_4)
  with st r show "\<exists>m' r. step (Mips_isa isa_helpers) jump_machine = (Inr ''j 0xc'', m')
      \<and> attrs m' ''PC'' = Some (IntV 12) \<and> attrs m' ''R'' = Some (DictV r) \<and> r 0 = Some 0"
    by blast
qed

section \<open>Properties of the register model\<close>

lemma apply_decl_Inr:
  "apply_decl d m = Inr m' \<Longrightarrow>
     reg_list m' = reg_list m @ [entry_of d] \<and> attrs m' = (attrs m)(decl_name d \<mapsto> init_value d)"
  by (cases d)
     (auto simp add: make_register_def make_register_file_def Let_def
        split: option.splits if_splits)

lemma reg_list_build_from:
  "build_from decls m = Inr m' \<Longrightarrow> reg_list m' = reg_list m @ map entry_of decls"
proof (induction decls arbitrary: m)
  case Nil
  then show ?case by simp
next
  case (Cons d ds)
  then obtain m1 where a: "apply_decl d m = Inr m1" and b: "build_from ds m1 = Inr m'"
    by (auto split: sum.splits)
  from Cons.IH [OF b] apply_decl_Inr [OF a] show ?case
    by simp
qed

lemma reg_list_build: "build_machine decls = Inr m \<Longrightarrow> reg_list m = map entry_of decls"
  by (auto simp add: build_machine_def init_machine_def dest: reg_list_build_from)

lemma attrs_build_from_other:
  "build_from decls m = Inr m' \<Longrightarrow> n \<notin> decl_name ` set decls \<Longrightarrow> attrs m' n = attrs m n"
proof (induction decls arbitrary: m)
  case Nil
  then show ?case by simp
next
  case (Cons d ds)
  then obtain m1 where a: "apply_decl d m = Inr m1" and b: "build_from ds m1 = Inr m'"
    by (auto split: sum.splits)
  from Cons.prems have "n \<notin> decl_name ` set ds" "n \<noteq> decl_name d"
    by auto
  with Cons.IH [OF b] apply_decl_Inr [OF a] show ?case
    by simp
qed

lemma attrs_build_from:
  "build_from decls m = Inr m' \<Longrightarrow> distinct (map decl_name decls) \<Longrightarrow> d \<in> set decls \<Longrightarrow>
     attrs m' (decl_name d) = Some (init_value d)"
proof (induction decls arbitrary: m)
  case Nil
  then show ?case by simp
next
  case (Cons x xs)
  then obtain m1 where a: "apply_decl x m = Inr m1" and b: "build_from xs m1 = Inr m'"
    by (auto split: sum.splits)
  show ?case
  proof (cases "d = x")
    case True
    from Cons.prems have "decl_name x \<notin> decl_name ` set xs"
      by simp
    from attrs_build_from_other [OF b this] apply_decl_Inr [OF a] True show ?thesis
      by simp
  next
    case False
    with Cons.prems have "d \<in> set xs" "distinct (map decl_name xs)"
      by simp_all
    with Cons.IH [OF b] show ?thesis
      by simp
  qed
qed

lemma attrs_build:
  "build_machine decls = Inr m \<Longrightarrow> distinct (map decl_name decls) \<Longrightarrow> d \<in> set decls \<Longrightarrow>
     attrs m (decl_name d) = Some (init_value d)"
  by (simp add: build_machine_def attrs_build_from)

text \<open>The declarations return a machine exactly when no name is one that \<open>setattr\<close> refuses.\<close>

lemma apply_decl_returns_iff:
  "(\<exists>m'. apply_decl d m = Inr m')
     \<longleftrightarrow> decl_name d \<notin> {''__class__'', ''__dict__'', ''__weakref__''}"
  by (cases d)
     (auto simp add: make_register_def make_register_file_def setattr_raises_def Let_def)

lemma build_from_returns_iff:
  "(\<exists>m'. build_from decls m = Inr m')
     \<longleftrightarrow> (\<forall>d\<in>set decls. decl_name d \<notin> {''__class__'', ''__dict__'', ''__weakref__''})"
proof (induction decls arbitrary: m)
  case Nil
  then show ?case by simp
next
  case (Cons d ds)
  show ?case
  proof (cases "apply_decl d m")
    case (Inl e)
    with apply_decl_returns_iff [of d m] show ?thesis
      by auto
  next
    case (Inr m1)
    with apply_decl_returns_iff [of d m] Cons.IH [of m1] show ?thesis
      by auto
  qed
qed

lemma build_machine_class_name: "build_machine [DeclRegister ''__class__'' 32] = Inl TypeError"
  by (simp add: build_machine_def make_register_def setattr_raises_def)

lemma file_registers_all:
  assumes "attrs m name = Some (DictV d)"
  shows "\<forall>i\<in>set is. rnames i \<noteq> None \<and> d i \<noteq> None \<Longrightarrow>
     file_registers m name bits rnames is
       = (map (\<lambda>i. (case rnames i of None \<Rightarrow> [] | Some n \<Rightarrow> n, bits,
                     IntV (case d i of None \<Rightarrow> 0 | Some v \<Rightarrow> v))) is, None)"
  using assms by (induction "is") auto

lemma range_dict_Some: "i \<in> set [0..sz - 1] \<Longrightarrow> range_dict sz f i = Some (f i)"
  by (simp add: range_dict_def)

lemma entry_triples:
  assumes "holds_values (attrs m) d" "override_total d"
  shows "registers_loop m (entry_of d # es) =
     (case registers_loop m es of
        (ys, e) \<Rightarrow> (spec_triples (scalar_value (attrs m)) (file_value (attrs m)) d @ ys, e))"
proof (cases d)
  case (DeclRegister name bits)
  with assms show ?thesis
    by (auto simp add: scalar_value_def split: prod.splits)
next
  case (DeclRegisterFile name sz bits rnames)
  with assms(1) obtain dd where dd: "attrs m name = Some (DictV dd)"
    and full: "\<forall>i\<in>set [0..sz - 1]. dd i \<noteq> None"
    by (auto simp add: list_all_iff split: option.splits pyvalue.splits)
  let ?rn = "case rnames of None \<Rightarrow> range_dict sz (\<lambda>x. ''$'' @ name @ str_int x) | Some r \<Rightarrow> r"
  have rn: "\<forall>i\<in>set [0..sz - 1]. ?rn i \<noteq> None"
  proof (cases rnames)
    case None
    then show ?thesis by (simp add: range_dict_def)
  next
    case (Some r)
    with assms(2) DeclRegisterFile show ?thesis
      by (simp add: list_all_iff)
  qed
  have names: "\<forall>i\<in>set [0..sz - 1]. (case ?rn i of None \<Rightarrow> [] | Some n \<Rightarrow> n) = display_name name rnames i"
    by (cases rnames) (simp_all add: display_name_def range_dict_def)
  have vals: "\<forall>i\<in>set [0..sz - 1]. (case dd i of None \<Rightarrow> 0 | Some v \<Rightarrow> v) = file_value (attrs m) name i"
    by (simp add: file_value_def dd)
  have "file_registers m name bits ?rn [0..sz - 1]
       = (map (\<lambda>i. (case ?rn i of None \<Rightarrow> [] | Some n \<Rightarrow> n, bits,
                     IntV (case dd i of None \<Rightarrow> 0 | Some v \<Rightarrow> v))) [0..sz - 1], None)"
    using rn full by (intro file_registers_all [OF dd]) simp
  also have "map (\<lambda>i. (case ?rn i of None \<Rightarrow> [] | Some n \<Rightarrow> n, bits,
                     IntV (case dd i of None \<Rightarrow> 0 | Some v \<Rightarrow> v))) [0..sz - 1]
      = spec_triples (scalar_value (attrs m)) (file_value (attrs m)) d"
    using names vals DeclRegisterFile by (simp cong: map_cong)
  finally show ?thesis
    using DeclRegisterFile by (simp split: prod.splits)
qed

lemma registers_loop_decls:
  "\<forall>d\<in>set decls. holds_values (attrs m) d \<and> override_total d \<Longrightarrow>
     registers_loop m (map entry_of decls)
       = (concat (map (spec_triples (scalar_value (attrs m)) (file_value (attrs m))) decls), None)"
  by (induction decls) (simp_all add: entry_triples)

lemma holds_values_build:
  assumes "build_machine decls = Inr m" "distinct (map decl_name decls)" "d \<in> set decls"
  shows "holds_values (attrs m) d"
  using attrs_build [OF assms]
  by (cases d) (simp_all add: list_all_iff range_dict_def)

lemma fresh_triples:
  assumes "build_machine decls = Inr m" "distinct (map decl_name decls)" "d \<in> set decls"
  shows "spec_triples (scalar_value (attrs m)) (file_value (attrs m)) d
         = spec_triples (\<lambda>name. IntV 0) (\<lambda>name i. 0) d"
  using attrs_build [OF assms]
  by (cases d) (simp_all add: scalar_value_def file_value_def range_dict_def)

text \<open>
  Claim C9 as stated fails. When a scalar register is declared under the name of an
  earlier register file, \<open>setattr\<close> replaces the dictionary by 0 and the enumeration raises
  \<open>TypeError\<close> at the first entry of the file. When an override names only index 0 of a
  file of size 2, the enumeration yields one triple and raises \<open>KeyError\<close>; it does not
  fall back to \<open>$<name><index>\<close>. Both machines are built without an exception.
\<close>

theorem registers_fail_on_reused_name_or_partial_override:
  "map_sum id registers (build_machine [DeclRegisterFile ''R'' 2 32 None, DeclRegister ''R'' 32])
     = Inr ([], Some TypeError)
   \<and> map_sum id registers (build_machine [DeclRegisterFile ''R'' 2 32 (Some [0 \<mapsto> ''$zero''])])
     = Inr ([(''$zero'', 32, IntV 0)], Some KeyError)"
  by (simp add: registers_def build_machine_def make_register_def make_register_file_def
      setattr_raises_def init_machine_def range_dict_def upto.simps)

text \<open>
  Claim C9, amended. For every machine that the scalar-register and register-file
  declarations build without raising (\<open>setattr\<close> raises for the names \<open>__class__\<close>,
  \<open>__dict__\<close> and \<open>__weakref__\<close>), with pairwise distinct names, none of them a name of
  the class itself, where each supplied override names every index of its file,
  \<open>registers\<close> yields, without raising, one triple \<open>(display name, bit width, current
  value)\<close> per register in the order of declaration, a file expanded as the indices
  \<open>0..size-1\<close>, each entry named by the override or, without override, \<open>$<name><index>\<close>.
  The values are 0 on the new machine, and the current ones after the registers were
  written.
\<close>

theorem registers_in_declaration_order:
  assumes "build_machine decls = Inr m"
    and "distinct (map decl_name decls)"
    and "\<forall>d\<in>set decls. override_total d"
    and "\<forall>d\<in>set decls. decl_name d \<notin> set own_names"
  shows "registers m
           = (concat (map (spec_triples (\<lambda>name. IntV 0) (\<lambda>name i. 0)) decls), None)
     \<and> (\<forall>vals. (\<forall>d\<in>set decls. holds_values vals d) \<longrightarrow>
           registers (m\<lparr>attrs := vals\<rparr>)
             = (concat (map (spec_triples (scalar_value vals) (file_value vals)) decls), None))"
proof (intro conjI allI impI)
  have "\<forall>d\<in>set decls. holds_values (attrs m) d \<and> override_total d"
    using assms(1-3) by (simp add: holds_values_build)
  then have "registers m
     = (concat (map (spec_triples (scalar_value (attrs m)) (file_value (attrs m))) decls), None)"
    unfolding registers_def reg_list_build [OF assms(1)] by (rule registers_loop_decls)
  moreover have "map (spec_triples (scalar_value (attrs m)) (file_value (attrs m))) decls
     = map (spec_triples (\<lambda>name. IntV 0) (\<lambda>name i. 0)) decls"
    using assms(1,2) by (intro map_cong refl fresh_triples)
  ultimately show "registers m
           = (concat (map (spec_triples (\<lambda>name. IntV 0) (\<lambda>name i. 0)) decls), None)"
    by simp
next
  fix vals
  let ?m = "m\<lparr>attrs := vals\<rparr>"
  assume "\<forall>d\<in>set decls. holds_values vals d"
  with assms(3) have "\<forall>d\<in>set decls. holds_values (attrs ?m) d \<and> override_total d"
    by simp
  then have "registers_loop ?m (map entry_of decls)
     = (concat (map (spec_triples (scalar_value (attrs ?m)) (file_value (attrs ?m))) decls), None)"
    by (rule registers_loop_decls)
  then show "registers ?m
     = (concat (map (spec_triples (scalar_value vals) (file_value vals)) decls), None)"
    by (simp add: registers_def reg_list_build [OF assms(1)])
qed

lemma upto_0_1: "[0..1] = [0, 1::int]"
  by (simp add: upto.simps)

theorem registers_in_declaration_order_witness:
  "\<exists>m. build_machine example_decls = Inr m
     \<and> registers m
         = ([(''$R0'', 32, IntV 0), (''$R1'', 32, IntV 0), (''PC'', 32, IntV 0),
             (''$f0'', 64, IntV 0), (''$f1'', 64, IntV 0)], None)
     \<and> registers (m\<lparr>attrs := example_values\<rparr>)
         = ([(''$R0'', 32, IntV 0), (''$R1'', 32, IntV 7), (''PC'', 32, IntV 4),
             (''$f0'', 64, IntV 1), (''$f1'', 64, IntV 2)], None)"
proof -
  have "\<forall>d\<in>set example_decls. decl_name d \<notin> {''__class__'', ''__dict__'', ''__weakref__''}"
    by (simp add: example_decls_def)
  then obtain m where m: "build_machine example_decls = Inr m"
    unfolding build_machine_def using build_from_returns_iff [of example_decls init_machine]
    by blast
  have a: "distinct (map decl_name example_decls)"
    by (simp add: example_decls_def)
  have b: "\<forall>d\<in>set example_decls. override_total d"
    by (simp add: example_decls_def upto_0_1)
  have c: "\<forall>d\<in>set example_decls. decl_name d \<notin> set own_names"
    by (simp add: example_decls_def own_names_def)
  have v: "\<forall>d\<in>set example_decls. holds_values example_values d"
    by (simp add: example_decls_def example_values_def upto_0_1)
  have s: "str_int 0 = ''0''" "str_int 1 = ''1''"
    by (simp_all add: str_int_def dec_digits.simps digit_char_def)
  note t = registers_in_declaration_order [OF m a b c]
  have "registers m
           = (concat (map (spec_triples (\<lambda>name. IntV 0) (\<lambda>name i. 0)) example_decls), None)"
    using t by (rule conjunct1)
  then have x: "registers m
     = ([(''$R0'', 32, IntV 0), (''$R1'', 32, IntV 0), (''PC'', 32, IntV 0),
         (''$f0'', 64, IntV 0), (''$f1'', 64, IntV 0)], None)"
    by (simp add: example_decls_def upto_0_1 display_name_def s)
  have "registers (m\<lparr>attrs := example_values\<rparr>)
             = (concat (map (spec_triples (scalar_value example_values) (file_value example_values))
                  example_decls), None)"
    using t [THEN conjunct2, rule_format, of example_values] v by simp
  then have y: "registers (m\<lparr>attrs := example_values\<rparr>)
     = ([(''$R0'', 32, IntV 0), (''$R1'', 32, IntV 7), (''PC'', 32, IntV 4),
         (''$f0'', 64, IntV 1), (''$f1'', 64, IntV 2)], None)"
    by (simp add: example_decls_def example_values_def upto_0_1 display_name_def s
        scalar_value_def file_value_def)
  from m x y show ?thesis
    by blast
qed

end
